theory Spec2Isabelle
  imports Main "HOL-Library.Log_Nat"
begin

section \<open>The array API wrapper of numpy/\_array\_api/\_array\_object.py\<close>

text \<open>
  The class \<open>Array\<close> wraps an \<open>ndarray\<close> of the underlying engine and narrows what the
  engine allows: scalar promotion, normalisation of zero-dimensional operands, index
  validation and the operator methods. The engine itself (numpy's core) is not part of
  the files modelled here. Every call into it is a field of the record \<open>engine\<close> below, so
  the theorems hold for every engine; the wrapper's own checks are modelled as written.
\<close>

subsection \<open>Exceptions\<close>

datatype error =
    TypeError | IndexError | ValueError | OverflowError
  | NotImplementedError | AttributeError

subsection \<open>Dtype registry\<close>

text \<open>
  Modelled from the spec: the module \<open>_dtypes\<close> (imported, not among the source files)
  with its tuples \<open>_boolean_dtypes\<close>, \<open>_integer_dtypes\<close> and \<open>_floating_dtypes\<close>. The spec
  gives a fixed set of element types (boolean, signed and unsigned integers of fixed
  widths, floating point of fixed widths), each in exactly one class.
\<close>

datatype dtype =
    Bool
  | Int8 | Int16 | Int32 | Int64
  | UInt8 | UInt16 | UInt32 | UInt64
  | Float32 | Float64

definition boolean_dtypes :: "dtype set" where
  "boolean_dtypes = {Bool}"

definition integer_dtypes :: "dtype set" where
  "integer_dtypes = {Int8, Int16, Int32, Int64, UInt8, UInt16, UInt32, UInt64}"

definition floating_dtypes :: "dtype set" where
  "floating_dtypes = {Float32, Float64}"

subsection \<open>Engine arrays and the wrapper\<close>

text \<open>
  An engine array has a dtype, a shape (a tuple of Python ints, \<open>()\<close> for a
  zero-dimensional array) and a buffer. The type \<open>'e\<close> of buffer elements is left open.
\<close>

record 'e ndarray =
  nd_dtype :: dtype
  nd_shape :: "int list"
  nd_data :: "'e list"

text \<open>
  \<open>Array\<close> holds the engine array in its field \<open>_array\<close>. \<open>Array._new\<close> stores its
  argument; an engine array scalar (\<open>np.generic\<close>) is turned into a shape \<open>()\<close> array
  first, and both are the same \<open>ndarray\<close> value here.
\<close>

datatype 'e Array = Array (array_of: "'e ndarray")

definition array_new :: "'e ndarray \<Rightarrow> 'e Array" where
  "array_new x = Array x"

definition dtype :: "'e Array \<Rightarrow> dtype" where
  "dtype a = nd_dtype (array_of a)"

definition shape :: "'e Array \<Rightarrow> int list" where
  "shape a = nd_shape (array_of a)"

subsection \<open>Python values handed to the wrapper\<close>

text \<open>
  A Python scalar is a \<open>bool\<close>, an \<open>int\<close> or a \<open>float\<close>. The wrapper never computes with a
  float, so its payload type \<open>'f\<close> is left open. An operand of an operator is a scalar,
  an \<open>Array\<close>, or some other object (\<open>Other\<close>: a string, \<open>None\<close>, a list, ...).
\<close>

datatype 'f pyscalar = PBool bool | PInt int | PFloat 'f

datatype ('f, 'e) operand = Scalar "'f pyscalar" | Arr "'e Array" | Other

subsection \<open>The engine\<close>

text \<open>
  The calls the wrapper makes into code that is not under the source files:
  \<^item> \<open>np_item s d\<close>: the element \<open>np.array(s, d)\<close> stores for a Python scalar \<open>s\<close>, or the
    exception it raises (the docstring of \<open>_promote_scalar\<close>: an out-of-range integer is
    cast or raises \<open>OverflowError\<close>);
  \<^item> \<open>nd_method name a b\<close>: the call \<open>a.name(b)\<close> of a method of \<open>ndarray\<close>, such as
    \<open>a.__add__(b)\<close>;
  \<^item> \<open>nd_inplace name a b\<close>: the new contents of the buffer of \<open>a\<close> after the call
    \<open>a.name(b)\<close> of an in-place method, such as \<open>a.__iadd__(b)\<close>, which changes neither
    the shape nor the dtype of \<open>a\<close>;
  \<^item> \<open>nd_cast d d' x\<close>: the element \<open>astype\<close> stores for \<open>x\<close> when casting from \<open>d\<close> to \<open>d'\<close>;
  \<^item> \<open>nd_assign a v\<close>: the new contents of the buffer of \<open>a\<close> after \<open>a[:] = v\<close>;
  \<^item> \<open>ew_pow x y\<close>: the function \<open>pow\<close> of \<open>_elementwise_functions\<close>;
  \<^item> \<open>nd_dlpack_device a\<close>: \<open>a.__dlpack_device__()\<close>;
  \<^item> \<open>nd_index a\<close>: \<open>operator.index(a)\<close> on an engine array, \<open>None\<close> for \<open>TypeError\<close>;
  \<^item> \<open>nd_scalar name a\<close>: the call \<open>a.name()\<close> of \<open>__bool__\<close>, \<open>__int__\<close> or \<open>__float__\<close>.
\<close>

record ('f, 'e) engine =
  np_item :: "'f pyscalar \<Rightarrow> dtype \<Rightarrow> error + 'e"
  nd_method :: "string \<Rightarrow> 'e ndarray \<Rightarrow> 'e ndarray \<Rightarrow> error + 'e ndarray"
  nd_inplace :: "string \<Rightarrow> 'e ndarray \<Rightarrow> 'e ndarray \<Rightarrow> error + 'e list"
  nd_cast :: "dtype \<Rightarrow> dtype \<Rightarrow> 'e \<Rightarrow> 'e"
  nd_assign :: "'e ndarray \<Rightarrow> 'e ndarray \<Rightarrow> error + 'e list"
  ew_pow :: "'e Array \<Rightarrow> 'e Array \<Rightarrow> error + 'e Array"
  nd_dlpack_device :: "'e ndarray \<Rightarrow> error + int \<times> int"
  nd_index :: "'e ndarray \<Rightarrow> int option"
  nd_scalar :: "string \<Rightarrow> 'e ndarray \<Rightarrow> error + 'f pyscalar"

text \<open>
  Modelled from the spec: \<open>np.array(scalar, dtype)\<close> of the engine. By section 4.1 the
  result is zero-dimensional and has exactly the target dtype; the element stored (or
  the exception) is the engine's.
\<close>

definition np_array :: "('f, 'e) engine \<Rightarrow> 'f pyscalar \<Rightarrow> dtype \<Rightarrow> error + 'e ndarray" where
  "np_array eng s d =
     (case np_item eng s d of
        Inl e \<Rightarrow> Inl e
      | Inr x \<Rightarrow> Inr \<lparr>nd_dtype = d, nd_shape = [], nd_data = [x]\<rparr>)"

text \<open>
  Modelled from the spec: \<open>a[None]\<close> of the engine, a view of \<open>a\<close> with one leading
  dimension of size 1 inserted, on the same buffer and with the same dtype.
\<close>

definition nd_newaxis :: "'e ndarray \<Rightarrow> 'e ndarray" where
  "nd_newaxis a = a\<lparr>nd_shape := 1 # nd_shape a\<rparr>"

text \<open>
  Modelled from the spec: \<open>a.astype(d)\<close> of the engine, an array of the same shape whose
  dtype is \<open>d\<close>, each element cast by the engine.
\<close>

definition nd_astype :: "('f, 'e) engine \<Rightarrow> 'e ndarray \<Rightarrow> dtype \<Rightarrow> 'e ndarray" where
  "nd_astype eng a d =
     a\<lparr>nd_dtype := d, nd_data := map (nd_cast eng (nd_dtype a) d) (nd_data a)\<rparr>"

subsection \<open>Scalar promotion\<close>

text \<open>
  \<open>Array._promote_scalar\<close>. The \<open>isinstance\<close> chain tests \<open>bool\<close> before \<open>int\<close> (a Python
  \<open>bool\<close> is an \<open>int\<close>), so a \<open>bool\<close> gets the first branch; anything that is not a scalar
  gets the last one.
\<close>

fun promote_scalar ::
  "('f, 'e) engine \<Rightarrow> 'e Array \<Rightarrow> ('f, 'e) operand \<Rightarrow> error + 'e Array" where
  "promote_scalar eng self (Scalar (PBool b)) =
     (if dtype self \<notin> boolean_dtypes then Inl TypeError
      else map_sum id array_new (np_array eng (PBool b) (dtype self)))"
| "promote_scalar eng self (Scalar (PInt i)) =
     (if dtype self \<in> boolean_dtypes then Inl TypeError
      else map_sum id array_new (np_array eng (PInt i) (dtype self)))"
| "promote_scalar eng self (Scalar (PFloat f)) =
     (if dtype self \<notin> floating_dtypes then Inl TypeError
      else map_sum id array_new (np_array eng (PFloat f) (dtype self)))"
| "promote_scalar eng self _ = Inl TypeError"

text \<open>\<open>Array._normalize_two_args\<close>.\<close>

definition normalize_two_args :: "'e Array \<Rightarrow> 'e Array \<Rightarrow> 'e Array \<times> 'e Array" where
  "normalize_two_args x1 x2 =
     (if shape x1 = [] \<and> shape x2 \<noteq> [] then (array_new (nd_newaxis (array_of x1)), x2)
      else if shape x2 = [] \<and> shape x1 \<noteq> [] then (x1, array_new (nd_newaxis (array_of x2)))
      else (x1, x2))"

subsection \<open>Operators\<close>

text \<open>
  Every operator method starts with
  \<^verbatim>\<open>if isinstance(other, (int, float, bool)): other = self._promote_scalar(other)\<close>
  after which \<open>other\<close> is an \<open>Array\<close>, or the object that was passed when it is not a
  scalar.
\<close>

definition promote_other ::
  "('f, 'e) engine \<Rightarrow> 'e Array \<Rightarrow> ('f, 'e) operand \<Rightarrow> error + ('f, 'e) operand" where
  "promote_other eng self other =
     (case other of
        Scalar s \<Rightarrow> map_sum id Arr (promote_scalar eng self other)
      | _ \<Rightarrow> Inr other)"

text \<open>
  The body shared by \<open>__add__\<close>, \<open>__and__\<close>, \<open>__eq__\<close>, \<open>__floordiv__\<close>, \<open>__ge__\<close>, \<open>__gt__\<close>,
  \<open>__le__\<close>, \<open>__lt__\<close>, \<open>__mod__\<close>, \<open>__mul__\<close>, \<open>__ne__\<close>, \<open>__or__\<close>, \<open>__sub__\<close>, \<open>__xor__\<close> and the
  reflected \<open>__radd__\<close>, \<open>__rand__\<close>, \<open>__rfloordiv__\<close>, \<open>__rmod__\<close>, \<open>__rmul__\<close>, \<open>__ror__\<close>,
  \<open>__rsub__\<close>, \<open>__rxor__\<close>; \<open>name\<close> is the method of \<open>ndarray\<close> each one calls. Reading
  \<open>other.shape\<close> of an object that is not an \<open>Array\<close> raises \<open>AttributeError\<close>.
\<close>

definition binary_method ::
  "string \<Rightarrow> ('f, 'e) engine \<Rightarrow> 'e Array \<Rightarrow> ('f, 'e) operand \<Rightarrow> error + 'e Array" where
  "binary_method name eng self other =
     (case promote_other eng self other of
        Inl e \<Rightarrow> Inl e
      | Inr (Arr other') \<Rightarrow>
          (case normalize_two_args self other' of
             (self1, other1) \<Rightarrow>
               map_sum id array_new (nd_method eng name (array_of self1) (array_of other1)))
      | Inr _ \<Rightarrow> Inl AttributeError)"

definition array_add ::
  "('f, 'e) engine \<Rightarrow> 'e Array \<Rightarrow> ('f, 'e) operand \<Rightarrow> error + 'e Array" where
  "array_add = binary_method ''__add__''"

text \<open>
  The body shared by the in-place \<open>__iadd__\<close>, \<open>__iand__\<close>, \<open>__ifloordiv__\<close>, \<open>__ilshift__\<close>,
  \<open>__imod__\<close>, \<open>__imul__\<close>, \<open>__ior__\<close>, \<open>__irshift__\<close>, \<open>__isub__\<close>, \<open>__ixor__\<close>: the engine writes
  into the buffer of \<open>self._array\<close> and the method returns \<open>self\<close>. The value returned
  here is the receiver after the write.
\<close>

definition inplace_method ::
  "string \<Rightarrow> ('f, 'e) engine \<Rightarrow> 'e Array \<Rightarrow> ('f, 'e) operand \<Rightarrow> error + 'e Array" where
  "inplace_method name eng self other =
     (case promote_other eng self other of
        Inl e \<Rightarrow> Inl e
      | Inr (Arr other') \<Rightarrow>
          (case nd_inplace eng name (array_of self) (array_of other') of
             Inl e \<Rightarrow> Inl e
           | Inr buf \<Rightarrow> Inr (Array ((array_of self)\<lparr>nd_data := buf\<rparr>)))
      | Inr _ \<Rightarrow> Inl AttributeError)"

definition array_iadd ::
  "('f, 'e) engine \<Rightarrow> 'e Array \<Rightarrow> ('f, 'e) operand \<Rightarrow> error + 'e Array" where
  "array_iadd = inplace_method ''__iadd__''"

definition array_ilshift ::
  "('f, 'e) engine \<Rightarrow> 'e Array \<Rightarrow> ('f, 'e) operand \<Rightarrow> error + 'e Array" where
  "array_ilshift = inplace_method ''__ilshift__''"

definition array_irshift ::
  "('f, 'e) engine \<Rightarrow> 'e Array \<Rightarrow> ('f, 'e) operand \<Rightarrow> error + 'e Array" where
  "array_irshift = inplace_method ''__irshift__''"

text \<open>
  The test of \<open>__truediv__\<close>, \<open>__pow__\<close> and their reflected and in-place forms:
  \<^verbatim>\<open>if self.dtype not in _floating_dtypes or other.dtype not in _floating_dtypes:
      raise TypeError(...)\<close>
  The \<open>or\<close> reads \<open>other.dtype\<close> only when the dtype of \<open>self\<close> is floating-point.
\<close>

definition floating_only ::
  "'e Array \<Rightarrow> ('f, 'e) operand \<Rightarrow> error + 'e Array" where
  "floating_only self other =
     (if dtype self \<notin> floating_dtypes then Inl TypeError
      else (case other of
              Arr other' \<Rightarrow>
                (if dtype other' \<notin> floating_dtypes then Inl TypeError else Inr other')
            | _ \<Rightarrow> Inl AttributeError))"

definition truediv_method ::
  "string \<Rightarrow> ('f, 'e) engine \<Rightarrow> 'e Array \<Rightarrow> ('f, 'e) operand \<Rightarrow> error + 'e Array" where
  "truediv_method name eng self other =
     (case promote_other eng self other of
        Inl e \<Rightarrow> Inl e
      | Inr other0 \<Rightarrow>
          (case floating_only self other0 of
             Inl e \<Rightarrow> Inl e
           | Inr other' \<Rightarrow>
               (case normalize_two_args self other' of
                  (self1, other1) \<Rightarrow>
                    map_sum id array_new
                      (nd_method eng name (array_of self1) (array_of other1)))))"

definition array_truediv ::
  "('f, 'e) engine \<Rightarrow> 'e Array \<Rightarrow> ('f, 'e) operand \<Rightarrow> error + 'e Array" where
  "array_truediv = truediv_method ''__truediv__''"

definition array_rtruediv ::
  "('f, 'e) engine \<Rightarrow> 'e Array \<Rightarrow> ('f, 'e) operand \<Rightarrow> error + 'e Array" where
  "array_rtruediv = truediv_method ''__rtruediv__''"

text \<open>\<open>__itruediv__\<close> and \<open>__ipow__\<close>: the same test, then the in-place method.\<close>

definition floating_inplace_method ::
  "string \<Rightarrow> ('f, 'e) engine \<Rightarrow> 'e Array \<Rightarrow> ('f, 'e) operand \<Rightarrow> error + 'e Array" where
  "floating_inplace_method name eng self other =
     (case promote_other eng self other of
        Inl e \<Rightarrow> Inl e
      | Inr other0 \<Rightarrow>
          (case floating_only self other0 of
             Inl e \<Rightarrow> Inl e
           | Inr other' \<Rightarrow>
               (case nd_inplace eng name (array_of self) (array_of other') of
                  Inl e \<Rightarrow> Inl e
                | Inr buf \<Rightarrow> Inr (Array ((array_of self)\<lparr>nd_data := buf\<rparr>)))))"

definition array_itruediv ::
  "('f, 'e) engine \<Rightarrow> 'e Array \<Rightarrow> ('f, 'e) operand \<Rightarrow> error + 'e Array" where
  "array_itruediv = floating_inplace_method ''__itruediv__''"

definition array_ipow ::
  "('f, 'e) engine \<Rightarrow> 'e Array \<Rightarrow> ('f, 'e) operand \<Rightarrow> error + 'e Array" where
  "array_ipow = floating_inplace_method ''__ipow__''"

text \<open>\<open>__pow__\<close> returns \<open>pow(self, other)\<close> and \<open>__rpow__\<close> returns \<open>pow(other, self)\<close>.\<close>

definition array_pow ::
  "('f, 'e) engine \<Rightarrow> 'e Array \<Rightarrow> ('f, 'e) operand \<Rightarrow> error + 'e Array" where
  "array_pow eng self other =
     (case promote_other eng self other of
        Inl e \<Rightarrow> Inl e
      | Inr other0 \<Rightarrow>
          (case floating_only self other0 of
             Inl e \<Rightarrow> Inl e
           | Inr other' \<Rightarrow> ew_pow eng self other'))"

definition array_rpow ::
  "('f, 'e) engine \<Rightarrow> 'e Array \<Rightarrow> ('f, 'e) operand \<Rightarrow> error + 'e Array" where
  "array_rpow eng self other =
     (case promote_other eng self other of
        Inl e \<Rightarrow> Inl e
      | Inr other0 \<Rightarrow>
          (case floating_only self other0 of
             Inl e \<Rightarrow> Inl e
           | Inr other' \<Rightarrow> ew_pow eng other' self))"

text \<open>
  \<open>__lshift__\<close> and \<open>__rshift__\<close>: no normalisation, and the engine's result is cast with
  \<open>.astype(self.dtype)\<close>.
\<close>

definition shift_method ::
  "string \<Rightarrow> ('f, 'e) engine \<Rightarrow> 'e Array \<Rightarrow> ('f, 'e) operand \<Rightarrow> error + 'e Array" where
  "shift_method name eng self other =
     (case promote_other eng self other of
        Inl e \<Rightarrow> Inl e
      | Inr (Arr other') \<Rightarrow>
          (case nd_method eng name (array_of self) (array_of other') of
             Inl e \<Rightarrow> Inl e
           | Inr res \<Rightarrow> Inr (array_new (nd_astype eng res (dtype self))))
      | Inr _ \<Rightarrow> Inl AttributeError)"

definition array_lshift ::
  "('f, 'e) engine \<Rightarrow> 'e Array \<Rightarrow> ('f, 'e) operand \<Rightarrow> error + 'e Array" where
  "array_lshift = shift_method ''__lshift__''"

definition array_rshift ::
  "('f, 'e) engine \<Rightarrow> 'e Array \<Rightarrow> ('f, 'e) operand \<Rightarrow> error + 'e Array" where
  "array_rshift = shift_method ''__rshift__''"

text \<open>
  \<open>__rlshift__\<close> and \<open>__rrshift__\<close> (\<open>other << self\<close>, \<open>other >> self\<close>): the cast is
  \<open>.astype(other.dtype)\<close>.
\<close>

definition reflected_shift_method ::
  "string \<Rightarrow> ('f, 'e) engine \<Rightarrow> 'e Array \<Rightarrow> ('f, 'e) operand \<Rightarrow> error + 'e Array" where
  "reflected_shift_method name eng self other =
     (case promote_other eng self other of
        Inl e \<Rightarrow> Inl e
      | Inr (Arr other') \<Rightarrow>
          (case nd_method eng name (array_of self) (array_of other') of
             Inl e \<Rightarrow> Inl e
           | Inr res \<Rightarrow> Inr (array_new (nd_astype eng res (dtype other'))))
      | Inr _ \<Rightarrow> Inl AttributeError)"

definition array_rlshift ::
  "('f, 'e) engine \<Rightarrow> 'e Array \<Rightarrow> ('f, 'e) operand \<Rightarrow> error + 'e Array" where
  "array_rlshift = reflected_shift_method ''__rlshift__''"

definition array_rrshift ::
  "('f, 'e) engine \<Rightarrow> 'e Array \<Rightarrow> ('f, 'e) operand \<Rightarrow> error + 'e Array" where
  "array_rrshift = reflected_shift_method ''__rrshift__''"

text \<open>
  \<open>__imatmul__\<close>. \<open>other_shape[-1]\<close> and \<open>other_shape[-2]\<close> are read only when the shape
  has at least two entries: the shape is not \<open>()\<close> after the first test, and the \<open>or\<close>
  stops at \<open>len(other_shape) == 1\<close>.
\<close>

definition array_imatmul ::
  "('f, 'e) engine \<Rightarrow> 'e Array \<Rightarrow> ('f, 'e) operand \<Rightarrow> error + 'e Array" where
  "array_imatmul eng self other =
     (case promote_other eng self other of
        Inl e \<Rightarrow> Inl e
      | Inr (Arr other') \<Rightarrow>
          (let other_shape = shape other' in
           if shape self = [] \<or> other_shape = [] then Inl ValueError
           else if length other_shape = 1
                   \<or> last other_shape \<noteq> last (butlast other_shape) then Inl ValueError
           else
             (case nd_method eng ''__matmul__'' (array_of self) (array_of other') of
                Inl e \<Rightarrow> Inl e
              | Inr res \<Rightarrow>
                  (case nd_assign eng (array_of self) res of
                     Inl e \<Rightarrow> Inl e
                   | Inr buf \<Rightarrow> Inr (Array ((array_of self)\<lparr>nd_data := buf\<rparr>)))))
      | Inr _ \<Rightarrow> Inl AttributeError)"

text \<open>
  \<open>__bool__\<close>, \<open>__int__\<close> and \<open>__float__\<close>: \<open>TypeError\<close> unless the shape is \<open>()\<close>, then the
  engine's method of the same name.
\<close>

definition scalar_method ::
  "string \<Rightarrow> ('f, 'e) engine \<Rightarrow> 'e Array \<Rightarrow> error + 'f pyscalar" where
  "scalar_method name eng self =
     (if nd_shape (array_of self) \<noteq> [] then Inl TypeError
      else nd_scalar eng name (array_of self))"

definition array_bool :: "('f, 'e) engine \<Rightarrow> 'e Array \<Rightarrow> error + 'f pyscalar" where
  "array_bool = scalar_method ''__bool__''"

definition array_int :: "('f, 'e) engine \<Rightarrow> 'e Array \<Rightarrow> error + 'f pyscalar" where
  "array_int = scalar_method ''__int__''"

definition array_float :: "('f, 'e) engine \<Rightarrow> 'e Array \<Rightarrow> error + 'f pyscalar" where
  "array_float = scalar_method ''__float__''"

text \<open>
  \<open>__dlpack_device__\<close> hands the engine's answer to \<open>_new\<close>; \<open>WrappedDevice t\<close> is the
  \<open>Array\<close> object whose \<open>_array\<close> field is the engine's tuple \<open>t\<close>. The property \<open>device\<close>
  raises.
\<close>

datatype wrapped_device = WrappedDevice "int \<times> int"

definition array_dlpack_device ::
  "('f, 'e) engine \<Rightarrow> 'e Array \<Rightarrow> error + wrapped_device" where
  "array_dlpack_device eng self =
     (case nd_dlpack_device eng (array_of self) of
        Inl e \<Rightarrow> Inl e
      | Inr res \<Rightarrow> Inr (WrappedDevice res))"

definition device :: "'e Array \<Rightarrow> error + int \<times> int" where
  "device self = Inl NotImplementedError"

subsection \<open>Index validation\<close>

text \<open>
  A bound of a slice is \<open>None\<close>, an integer (\<open>SInt i\<close>: a Python \<open>int\<close> or \<open>bool\<close>, which has
  \<open>__index__\<close> and is compared as the integer \<open>i\<close>) or an object for which \<open>operator.index\<close>
  raises \<open>TypeError\<close> (\<open>SObj\<close>). The step is \<open>None\<close> or an integer.
\<close>

datatype sbound = SInt int | SObj

record pyslice =
  start :: "sbound option"
  stop :: "sbound option"
  step :: "int option"

text \<open>
  The objects that reach \<open>_validate_index\<close>, as a key or inside one: a slice, a tuple, a
  \<open>bool\<close>, an \<open>Array\<close>, an engine array (what the validator returns for an \<open>Array\<close>, and
  then reads again in a tuple), \<open>Ellipsis\<close>, \<open>None\<close>, an object with \<open>__index__\<close> (\<open>KInt i\<close>,
  of which \<open>operator.index\<close> returns \<open>i\<close>) and any other object (\<open>KObj\<close>).
\<close>

datatype 'e key =
    KSlice pyslice
  | KTuple "'e key list"
  | KBool bool
  | KArray "'e Array"
  | KNdarray "'e ndarray"
  | KEllipsis
  | KNone
  | KInt int
  | KObj

text \<open>
  The slice branch of \<open>_validate_index\<close>, in two parts: the test of \<open>key.start\<close>
  (\<open>validate_slice\<close>) and the test of \<open>key.stop\<close> that follows it (\<open>validate_stop\<close>). A bound
  that has no \<open>__index__\<close> returns the key at once.
\<close>

definition validate_stop :: "pyslice \<Rightarrow> int \<Rightarrow> error + pyslice" where
  "validate_stop key sz =
     (case stop key of
        None \<Rightarrow> Inr key
      | Some SObj \<Rightarrow> Inr key
      | Some (SInt j) \<Rightarrow>
          (let stp = (case step key of None \<Rightarrow> 1 | Some k \<Rightarrow> k) in
           if stp > 0 \<and> \<not> (- sz \<le> j \<and> j \<le> sz)
              \<or> stp < 0 \<and> \<not> (- sz - 1 \<le> j \<and> j \<le> max 0 (sz - 1))
           then Inl IndexError else Inr key))"

definition validate_slice :: "pyslice \<Rightarrow> int list option \<Rightarrow> error + pyslice" where
  "validate_slice key shp =
     (case shp of
        None \<Rightarrow> Inr key
      | Some [] \<Rightarrow> Inr key
      | Some (sz # _) \<Rightarrow>
          (case start key of
             None \<Rightarrow> validate_stop key sz
           | Some SObj \<Rightarrow> Inr key
           | Some (SInt i) \<Rightarrow>
               (if \<not> (- sz \<le> i \<and> i \<le> max 0 (sz - 1)) then Inl IndexError
                else validate_stop key sz)))"

text \<open>
  Validating the elements of a tuple one after the other: the first exception raised
  leaves the loop.
\<close>

fun sequence_results :: "(error + 'a) list \<Rightarrow> error + 'a list" where
  "sequence_results [] = Inr []"
| "sequence_results (r # rs) =
     (case r of
        Inl e \<Rightarrow> Inl e
      | Inr x \<Rightarrow> (case sequence_results rs of Inl e \<Rightarrow> Inl e | Inr xs \<Rightarrow> Inr (x # xs)))"

text \<open>
  The test of the tuple branch,
  \<^verbatim>\<open>isinstance(idx, np.ndarray) and idx.dtype in _boolean_dtypes
    or isinstance(idx, (bool, np.bool_))\<close>
\<close>

fun is_mask :: "'e key \<Rightarrow> bool" where
  "is_mask (KNdarray a) = (nd_dtype a \<in> boolean_dtypes)"
| "is_mask (KBool b) = True"
| "is_mask _ = False"

text \<open>
  The pairs of the last loop of the tuple branch,
  \<^verbatim>\<open>list(zip(key[:ellipsis_i], shape))
    + list(zip(key[:ellipsis_i:-1], shape[:ellipsis_i:-1]))\<close>
  where \<open>ellipsis_i\<close> is \<open>key.index(...)\<close> when the key has an ellipsis and \<open>len(key)\<close>
  otherwise. \<open>xs[:i:-1]\<close> is the part of \<open>xs\<close> after position \<open>i\<close>, reversed.
\<close>

definition axis_pairs :: "'e key list \<Rightarrow> int list \<Rightarrow> ('e key \<times> int) list" where
  "axis_pairs key shp =
     (let n_ellipsis = count_list key KEllipsis;
          ellipsis_i = (if n_ellipsis \<noteq> 0 then length (takeWhile (\<lambda>k. k \<noteq> KEllipsis) key) else length key)
      in zip (take ellipsis_i key) shp
         @ zip (rev (drop (Suc ellipsis_i) key)) (rev (drop (Suc ellipsis_i) shp)))"

text \<open>
  \<open>key.count(...)\<close> compares every element of the key with \<open>Ellipsis\<close> by \<open>==\<close> and takes
  the truth value of the answer. For an engine array the answer is an array of the same
  shape, and the truth value of an array of more than one element raises \<open>ValueError\<close>
  in the engine.
\<close>

fun multi_element :: "'e key \<Rightarrow> bool" where
  "multi_element (KNdarray a) = (1 < prod_list (nd_shape a))"
| "multi_element _ = False"

text \<open>
  \<open>Array._validate_index\<close>. The tuple branch validates every element with shape \<open>None\<close>,
  then validates the rewritten elements against the sizes they are paired with; the
  results of that second pass are dropped, its exceptions are not.
\<close>

function validate_index ::
  "('f, 'e) engine \<Rightarrow> 'e key \<Rightarrow> int list option \<Rightarrow> error + 'e key" where
  "validate_index eng (KSlice s) shp = map_sum id KSlice (validate_slice s shp)"
| "validate_index eng (KTuple ks) shp =
     (case sequence_results (map (\<lambda>idx. validate_index eng idx None) ks) of
        Inl e \<Rightarrow> Inl e
      | Inr key \<Rightarrow>
          (case find is_mask key of
             Some idx \<Rightarrow> (if length key = 1 then Inr (KTuple key) else Inl IndexError)
           | None \<Rightarrow>
               (case shp of
                  None \<Rightarrow> Inr (KTuple key)
                | Some dims \<Rightarrow>
                    (if list_ex multi_element key then Inl ValueError
                     else if count_list key KEllipsis > 1 then Inr (KTuple key)
                     else
                       (case sequence_results
                               (map (\<lambda>(idx, sz). validate_index eng idx (Some [sz]))
                                  (axis_pairs key dims)) of
                          Inl e \<Rightarrow> Inl e
                        | Inr _ \<Rightarrow> Inr (KTuple key))))))"
| "validate_index eng (KBool b) shp = Inr (KBool b)"
| "validate_index eng (KArray a) shp =
     (if dtype a \<in> integer_dtypes \<and> shape a \<noteq> [] then Inl IndexError
      else Inr (KNdarray (array_of a)))"
| "validate_index eng KEllipsis shp = Inr KEllipsis"
| "validate_index eng KNone shp = Inl IndexError"
| "validate_index eng (KInt i) shp = Inr (KInt i)"
| "validate_index eng (KNdarray a) shp =
     (case nd_index eng a of Some i \<Rightarrow> Inr (KInt i) | None \<Rightarrow> Inl IndexError)"
| "validate_index eng KObj shp = Inl IndexError"
  by pat_completeness auto


text \<open>
  The function terminates: validating a key never makes it larger, so the rewritten
  elements of a tuple are smaller than the tuple.
\<close>

lemma sequence_results_length:
  "sequence_results rs = Inr xs \<Longrightarrow> length xs = length rs"
  by (induction rs arbitrary: xs) (auto split: sum.splits)

lemma sequence_results_nth:
  "sequence_results rs = Inr xs \<Longrightarrow> i < length rs \<Longrightarrow> rs ! i = Inr (xs ! i)"
proof (induction rs arbitrary: xs i)
  case Nil
  then show ?case by simp
next
  case (Cons r rs)
  then show ?case by (cases i) (auto split: sum.splits)
qed

lemma sequence_results_size:
  "sequence_results (map f ks) = Inr b \<Longrightarrow>
   (\<And>x y. x \<in> set ks \<Longrightarrow> f x = Inr y \<Longrightarrow> size y \<le> size x) \<Longrightarrow>
   size_list size b \<le> size_list size ks"
proof (induction ks arbitrary: b)
  case Nil
  then show ?case by simp
next
  case (Cons k ks)
  from Cons.prems(1) obtain y ys where
    y: "f k = Inr y" and ys: "sequence_results (map f ks) = Inr ys" and b: "b = y # ys"
    by (auto split: sum.splits)
  have "size y \<le> size k" using Cons.prems(2) [of k y] y by simp
  moreover have "size_list size ys \<le> size_list size ks"
    using Cons.IH [OF ys] Cons.prems(2) by simp
  ultimately show ?case using b by simp
qed

lemma sequence_results_member:
  assumes "sequence_results (map f ks) = Inr b" and "y \<in> set b"
  shows "\<exists>x \<in> set ks. f x = Inr y"
proof -
  from assms(2) obtain i where i: "i < length b" "b ! i = y"
    by (auto simp: in_set_conv_nth)
  have len: "length b = length ks"
    using sequence_results_length [OF assms(1)] by simp
  have "map f ks ! i = Inr (b ! i)"
    using sequence_results_nth [OF assms(1)] i len by simp
  then have "f (ks ! i) = Inr y" using i len by simp
  moreover have "ks ! i \<in> set ks" using i len by simp
  ultimately show ?thesis by blast
qed

lemma axis_pairs_fst: "(idx, sz) \<in> set (axis_pairs key shp) \<Longrightarrow> idx \<in> set key"
  by (auto simp: axis_pairs_def Let_def dest!: set_zip_leftD in_set_takeD in_set_dropD)

lemma size_key_member: "x \<in> set ks \<Longrightarrow> size x < size (KTuple ks)"
  by (induction ks) auto

lemma validate_index_size:
  "validate_index_dom (eng, k, shp) \<Longrightarrow> validate_index eng k shp = Inr k' \<Longrightarrow> size k' \<le> size k"
proof (induction eng k shp arbitrary: k' rule: validate_index.pinduct)
  case (1 eng s shp)
  then show ?case
    by (cases "validate_slice s shp") (auto simp: validate_index.psimps)
next
  case (2 eng ks shp)
  from "2.prems" obtain key where
    key: "sequence_results (map (\<lambda>idx. validate_index eng idx None) ks) = Inr key"
    and k': "k' = KTuple key"
    by (auto simp: validate_index.psimps(2) [OF "2.hyps"] split: sum.splits option.splits if_splits)
  have "size_list size key \<le> size_list size ks"
    using key "2.IH"(1) by (rule sequence_results_size)
  then show ?case using k' by simp
qed (auto simp: validate_index.psimps split: sum.splits option.splits if_splits)

termination validate_index
proof (relation "measure (\<lambda>(eng, k, s). size k)", goal_cases)
  case 1
  then show ?case by simp
next
  case (2 eng ks shp x)
  then show ?case using size_key_member [of x ks] by simp
next
  case (3 eng ks shp b x2 x xa y)
  have "xa \<in> set b" using 3(6,7) axis_pairs_fst [of xa y b x2] by simp
  then obtain k where k: "k \<in> set ks" "validate_index eng k None = Inr xa"
    using sequence_results_member [OF 3(1)] by blast
  have "size xa \<le> size k" using validate_index_size [OF 3(8) [OF k(1)] k(2)] .
  then show ?case using size_key_member [OF k(1)] by simp
qed

subsection \<open>The scalar conversions of the engine\<close>

text \<open>
  Modelled from the spec: the ranges of the integer dtypes (fixed widths, signed and
  unsigned) and the cast of an integer to one of them, which keeps the low bits.
\<close>

definition int_bounds :: "dtype \<Rightarrow> int \<times> int" where
  "int_bounds d =
     (case d of
        Int8 \<Rightarrow> (- 128, 127) | Int16 \<Rightarrow> (- 32768, 32767)
      | Int32 \<Rightarrow> (- (2 ^ 31), 2 ^ 31 - 1) | Int64 \<Rightarrow> (- (2 ^ 63), 2 ^ 63 - 1)
      | UInt8 \<Rightarrow> (0, 255) | UInt16 \<Rightarrow> (0, 65535)
      | UInt32 \<Rightarrow> (0, 2 ^ 32 - 1) | UInt64 \<Rightarrow> (0, 2 ^ 64 - 1)
      | _ \<Rightarrow> (0, 1))"

definition cast_int :: "dtype \<Rightarrow> int \<Rightarrow> int" where
  "cast_int d i = (case int_bounds d of (lo, hi) \<Rightarrow> lo + (i - lo) mod (hi - lo + 1))"

text \<open>
  Modelled from the spec: the conversion \<open>np.array(i, d)\<close> makes of a Python \<open>int\<close> for an
  integer dtype \<open>d\<close>, code of the engine. Section 4.1 and the docstring of
  \<open>_promote_scalar\<close>: a value in the range of the dtype is stored as it is, a value out of
  range is cast or raises \<open>OverflowError\<close>, as the engine does. The engine reads the \<open>int\<close>
  as a C \<open>long\<close> (as an \<open>unsigned long\<close> for \<open>uint32\<close> and \<open>uint64\<close>, with the signed reading
  as fallback), raises \<open>OverflowError\<close> when it does not fit, and casts what it read to
  the dtype, which wraps it into the range.
\<close>

definition int_item :: "dtype \<Rightarrow> int \<Rightarrow> error + int" where
  "int_item d i =
     (if fst (int_bounds d) \<le> i \<and> i \<le> snd (int_bounds d) then Inr i
      else if - (2 ^ 63) \<le> i \<and> i < (if d = UInt32 \<or> d = UInt64 then 2 ^ 64 else 2 ^ 63)
      then Inr (cast_int d i)
      else Inl OverflowError)"

text \<open>
  Modelled from the spec: the floating-point values of the engine, code that is not
  under the source files. The spec has floating-point dtypes of fixed widths; the
  engine's are IEEE 754 \<open>binary32\<close> and \<open>binary64\<close>, and a Python \<open>float\<close> is a \<open>binary64\<close>
  value. A format is its precision \<open>p\<close> (bits of the significand) and its largest
  exponent \<open>emax\<close>; the smallest exponent is \<open>1 - emax\<close>.
\<close>

record float_format =
  precision :: nat
  emax :: int

definition binary32 :: float_format where
  "binary32 = \<lparr>precision = 24, emax = 127\<rparr>"

definition binary64 :: float_format where
  "binary64 = \<lparr>precision = 53, emax = 1023\<rparr>"

definition format_of :: "dtype \<Rightarrow> float_format" where
  "format_of d = (if d = Float32 then binary32 else binary64)"

text \<open>
  A floating-point value: a finite one is the rational number it denotes.
\<close>

datatype fl = Fin rat | PosInf | NegInf | NaN

text \<open>
  \<open>floor_log2 q\<close> is the exponent of the leading bit of \<open>q > 0\<close>; \<open>ulp_exp fmt q\<close> is the
  exponent of the unit in the last place of the format at \<open>q\<close>, subnormal range included.
\<close>

definition floor_log2 :: "rat \<Rightarrow> int" where
  "floor_log2 q =
     (case quotient_of q of
        (a, b) \<Rightarrow> (let e = bitlen a - bitlen b in if 2 powi e \<le> q then e else e - 1))"

definition ulp_exp :: "float_format \<Rightarrow> rat \<Rightarrow> int" where
  "ulp_exp fmt q = max (floor_log2 \<bar>q\<bar>) (1 - emax fmt) - int (precision fmt) + 1"

text \<open>
  Rounding to the format: to the nearest multiple of the unit in the last place, a tie
  to the even one, and to infinity when the result leaves the range of the format. A
  value is representable when it is in range and is such a multiple already.
\<close>

definition round_half_even :: "rat \<Rightarrow> int" where
  "round_half_even x =
     (let n = \<lfloor>x\<rfloor>; d = x - of_int n in
      if d < 1 / 2 then n else if 1 / 2 < d then n + 1 else if even n then n else n + 1)"

definition round_to :: "float_format \<Rightarrow> rat \<Rightarrow> fl" where
  "round_to fmt q =
     (if q = 0 then Fin 0
      else (let u = 2 powi ulp_exp fmt q;
                y = of_int (round_half_even (q / u)) * u in
            if 2 powi (emax fmt + 1) \<le> \<bar>y\<bar> then (if 0 < q then PosInf else NegInf)
            else Fin y))"

definition representable :: "float_format \<Rightarrow> rat \<Rightarrow> bool" where
  "representable fmt q =
     (q = 0 \<or> \<bar>q\<bar> < 2 powi (emax fmt + 1)
              \<and> of_int \<lfloor>q / 2 powi ulp_exp fmt q\<rfloor> = q / 2 powi ulp_exp fmt q)"

text \<open>
  The elements of a buffer: a boolean, an integer or a floating-point value.
\<close>

datatype elem = EBool bool | EInt int | EFloat fl

text \<open>
  Modelled from the spec: the conversions between floating-point values and integers
  that the engine makes when it stores or reads a scalar. A \<open>float\<close> stored into a
  floating-point dtype is rounded to its format, infinities and NaN are kept; a Python
  \<open>int\<close> becomes a \<open>float\<close> by rounding to \<open>binary64\<close>, with \<open>OverflowError\<close> when it is too
  large for one; a \<open>float\<close> becomes an integer by truncation towards zero.
\<close>

definition float_item :: "float_format \<Rightarrow> fl \<Rightarrow> fl" where
  "float_item fmt f = (case f of Fin q \<Rightarrow> round_to fmt q | _ \<Rightarrow> f)"

definition int_to_double :: "int \<Rightarrow> error + fl" where
  "int_to_double i =
     (case round_to binary64 (of_int i) of Fin q \<Rightarrow> Inr (Fin q) | _ \<Rightarrow> Inl OverflowError)"

definition truncate :: "rat \<Rightarrow> int" where
  "truncate q = (if 0 \<le> q then \<lfloor>q\<rfloor> else \<lceil>q\<rceil>)"

text \<open>
  Modelled from the spec: the element \<open>np.array(scalar, dtype)\<close> stores for a Python
  scalar, code of the engine. Section 4.1: the value stored equals the input scalar, and
  what the dtype cannot hold follows the engine's native behaviour (\<open>int_item\<close> for an
  integer dtype, rounding for a floating-point dtype).
\<close>

definition numpy_item :: "fl pyscalar \<Rightarrow> dtype \<Rightarrow> error + elem" where
  "numpy_item s d =
     (if d \<in> boolean_dtypes then
        Inr (EBool (case s of PBool b \<Rightarrow> b | PInt i \<Rightarrow> i \<noteq> 0 | PFloat f \<Rightarrow> f \<noteq> Fin 0))
      else if d \<in> integer_dtypes then
        (case s of
           PBool b \<Rightarrow> Inr (EInt (if b then 1 else 0))
         | PInt i \<Rightarrow> map_sum id EInt (int_item d i)
         | PFloat (Fin q) \<Rightarrow> map_sum id EInt (int_item d (truncate q))
         | PFloat NaN \<Rightarrow> Inl ValueError
         | PFloat _ \<Rightarrow> Inl OverflowError)
      else
        (case s of
           PBool b \<Rightarrow> Inr (EFloat (Fin (if b then 1 else 0)))
         | PInt i \<Rightarrow>
             (case int_to_double i of
                Inl e \<Rightarrow> Inl e
              | Inr f \<Rightarrow> Inr (EFloat (float_item (format_of d) f)))
         | PFloat f \<Rightarrow> Inr (EFloat (float_item (format_of d) f))))"

text \<open>
  Modelled from the spec: \<open>__bool__\<close>, \<open>__int__\<close> and \<open>__float__\<close> of an engine array with
  one element, code of the engine. Section 4.4: the scalar-extraction operations return
  the native value of the element.
\<close>

definition numpy_scalar :: "string \<Rightarrow> elem ndarray \<Rightarrow> error + fl pyscalar" where
  "numpy_scalar name a =
     (case nd_data a of
        [x] \<Rightarrow>
          (if name = ''__bool__'' then
             Inr (PBool (case x of EBool b \<Rightarrow> b | EInt i \<Rightarrow> i \<noteq> 0 | EFloat f \<Rightarrow> f \<noteq> Fin 0))
           else if name = ''__int__'' then
             (case x of
                EBool b \<Rightarrow> Inr (PInt (if b then 1 else 0))
              | EInt i \<Rightarrow> Inr (PInt i)
              | EFloat (Fin q) \<Rightarrow> Inr (PInt (truncate q))
              | EFloat NaN \<Rightarrow> Inl ValueError
              | EFloat _ \<Rightarrow> Inl OverflowError)
           else
             (case x of
                EBool b \<Rightarrow> Inr (PFloat (Fin (if b then 1 else 0)))
              | EInt i \<Rightarrow> map_sum id PFloat (int_to_double i)
              | EFloat f \<Rightarrow> Inr (PFloat f)))
      | _ \<Rightarrow> Inl TypeError)"

text \<open>
  The engine's scalar conversions as an \<open>engine\<close>: only \<open>np.array\<close> of a scalar and
  the scalar extraction are given, every other call raises.
\<close>

definition scalar_engine :: "(fl, elem) engine" where
  "scalar_engine =
     \<lparr>np_item = numpy_item,
      nd_method = (\<lambda>name a b. Inl NotImplementedError),
      nd_inplace = (\<lambda>name a b. Inl NotImplementedError),
      nd_cast = (\<lambda>d d' x. x),
      nd_assign = (\<lambda>a v. Inl NotImplementedError),
      ew_pow = (\<lambda>x y. Inl NotImplementedError),
      nd_dlpack_device = (\<lambda>a. Inl NotImplementedError),
      nd_index = (\<lambda>a. None),
      nd_scalar = numpy_scalar\<rparr>"

subsection \<open>An engine for the examples\<close>

text \<open>
  A small engine on which the wrapper can be run on concrete arrays. Its buffers hold
  integers (booleans as 0 and 1, floats with integral values as those integers). A
  Python \<open>int\<close> stored into an integer dtype is converted by \<open>int_item\<close> below. Its
  methods work element by element, a one-element operand being broadcast, and give the
  wider of the two dtypes; \<open>__matmul__\<close> is the product of a vector or a matrix with a
  matrix.
\<close>

definition example_item :: "int pyscalar \<Rightarrow> dtype \<Rightarrow> error + int" where
  "example_item s d =
     (case s of
        PBool b \<Rightarrow> Inr (if b then 1 else 0)
      | PFloat x \<Rightarrow> Inr x
      | PInt i \<Rightarrow> (if d \<notin> integer_dtypes then Inr i else int_item d i))"

definition example_fun :: "string \<Rightarrow> (int \<Rightarrow> int \<Rightarrow> int) option" where
  "example_fun name =
     (if name = ''__add__'' \<or> name = ''__iadd__'' then Some (\<lambda>x y. x + y)
      else if name = ''__truediv__'' \<or> name = ''__itruediv__'' then Some (\<lambda>x y. x div y)
      else if name = ''__rtruediv__'' then Some (\<lambda>x y. y div x)
      else if name = ''__pow__'' \<or> name = ''__ipow__'' then Some (\<lambda>x y. x ^ nat y)
      else if name = ''__lshift__'' \<or> name = ''__ilshift__'' then Some (\<lambda>x y. x * 2 ^ nat y)
      else if name = ''__rlshift__'' then Some (\<lambda>x y. y * 2 ^ nat x)
      else if name = ''__rshift__'' \<or> name = ''__irshift__'' then Some (\<lambda>x y. x div 2 ^ nat y)
      else if name = ''__rrshift__'' then Some (\<lambda>x y. y div 2 ^ nat x)
      else None)"

definition broadcast2 :: "(int \<Rightarrow> int \<Rightarrow> int) \<Rightarrow> int list \<Rightarrow> int list \<Rightarrow> int list" where
  "broadcast2 f xs ys =
     (if length xs = 1 then map (f (hd xs)) ys
      else if length ys = 1 then map (\<lambda>x. f x (hd ys)) xs
      else map2 f xs ys)"

definition dtype_rank :: "dtype \<Rightarrow> nat" where
  "dtype_rank d =
     (case d of
        Bool \<Rightarrow> 0 | Int8 \<Rightarrow> 1 | UInt8 \<Rightarrow> 2 | Int16 \<Rightarrow> 3 | UInt16 \<Rightarrow> 4 | Int32 \<Rightarrow> 5
      | UInt32 \<Rightarrow> 6 | Int64 \<Rightarrow> 7 | UInt64 \<Rightarrow> 8 | Float32 \<Rightarrow> 9 | Float64 \<Rightarrow> 10)"

definition example_matmul :: "int ndarray \<Rightarrow> int ndarray \<Rightarrow> error + int ndarray" where
  "example_matmul a b =
     (case (nd_shape a, nd_shape b) of
        ([n], [n', m]) \<Rightarrow>
          (if n \<noteq> n' then Inl ValueError
           else Inr \<lparr>nd_dtype = nd_dtype a, nd_shape = [m],
                  nd_data = map (\<lambda>j. \<Sum>i \<leftarrow> [0..<nat n]. nd_data a ! i * nd_data b ! (i * nat m + j))
                              [0..<nat m]\<rparr>)
      | ([k, n], [n', m]) \<Rightarrow>
          (if n \<noteq> n' then Inl ValueError
           else Inr \<lparr>nd_dtype = nd_dtype a, nd_shape = [k, m],
                  nd_data = concat (map (\<lambda>r. map (\<lambda>j. \<Sum>i \<leftarrow> [0..<nat n].
                                 nd_data a ! (r * nat n + i) * nd_data b ! (i * nat m + j))
                              [0..<nat m]) [0..<nat k])\<rparr>)
      | _ \<Rightarrow> Inl ValueError)"

definition example_method :: "string \<Rightarrow> int ndarray \<Rightarrow> int ndarray \<Rightarrow> error + int ndarray" where
  "example_method name a b =
     (if name = ''__matmul__'' then example_matmul a b
      else (case example_fun name of
              None \<Rightarrow> Inl TypeError
            | Some f \<Rightarrow>
                Inr \<lparr>nd_dtype = (if dtype_rank (nd_dtype a) \<le> dtype_rank (nd_dtype b)
                                  then nd_dtype b else nd_dtype a),
                     nd_shape = (if length (nd_shape a) < length (nd_shape b)
                                  then nd_shape b else nd_shape a),
                     nd_data = broadcast2 f (nd_data a) (nd_data b)\<rparr>))"

definition example_assign :: "int ndarray \<Rightarrow> int ndarray \<Rightarrow> error + int list" where
  "example_assign a v =
     (if length (nd_data v) = length (nd_data a) then Inr (nd_data v)
      else if length (nd_data v) = 1 then Inr (map (\<lambda>_. hd (nd_data v)) (nd_data a))
      else Inl ValueError)"

definition example_engine :: "(int, int) engine" where
  "example_engine =
     \<lparr>np_item = example_item,
      nd_method = example_method,
      nd_inplace = (\<lambda>name a b.
         case example_method name a b of
           Inl e \<Rightarrow> Inl e
         | Inr r \<Rightarrow> example_assign a r),
      nd_cast = (\<lambda>d d' x. if d' \<in> integer_dtypes then cast_int d' x else x),
      nd_assign = example_assign,
      ew_pow = (\<lambda>x y.
         case normalize_two_args x y of
           (x1, y1) \<Rightarrow> map_sum id array_new (example_method ''__pow__'' (array_of x1) (array_of y1))),
      nd_dlpack_device = (\<lambda>a. Inr (1, 0)),
      nd_index = (\<lambda>a. if nd_dtype a \<in> integer_dtypes \<and> nd_shape a = [] \<and> nd_data a \<noteq> []
                        then Some (hd (nd_data a)) else None),
      nd_scalar = (\<lambda>name a.
         if length (nd_data a) \<noteq> 1 then Inl TypeError
         else if name = ''__bool__'' then Inr (PBool (hd (nd_data a) \<noteq> 0))
         else if name = ''__int__'' then Inr (PInt (hd (nd_data a)))
         else Inr (PFloat (hd (nd_data a))))\<rparr>"

text \<open>
  An engine that writes, in place of every element, the number of dimensions of the
  right operand it was given: it shows which operand a method hands to the engine.
\<close>

definition rank_probe :: "(int, int) engine" where
  "rank_probe =
     example_engine
       \<lparr>nd_method := (\<lambda>name a b. Inr (a\<lparr>nd_data := map (\<lambda>_. int (length (nd_shape b))) (nd_data a)\<rparr>)),
        nd_inplace := (\<lambda>name a b. Inr (map (\<lambda>_. int (length (nd_shape b))) (nd_data a)))\<rparr>"

section \<open>Properties\<close>

subsection \<open>Slices\<close>

text \<open>
  The bounds of section 4.3 of the spec, in its words: the start \<open>i\<close> is omitted or
  \<open>-n \<le> i \<le> max(0, n-1)\<close>; the stop \<open>j\<close> is omitted or, for a step \<open>k > 0\<close> or omitted,
  \<open>-n \<le> j \<le> n\<close>, and for \<open>k < 0\<close>, \<open>-n-1 \<le> j \<le> max(0, n-1)\<close>.
\<close>

definition slice_in_bounds :: "int \<Rightarrow> int option \<Rightarrow> int option \<Rightarrow> int option \<Rightarrow> bool" where
  "slice_in_bounds n i j k =
     ((case i of None \<Rightarrow> True | Some i' \<Rightarrow> - n \<le> i' \<and> i' \<le> max 0 (n - 1))
      \<and> (case j of
           None \<Rightarrow> True
         | Some j' \<Rightarrow>
             (case k of
                None \<Rightarrow> - n \<le> j' \<and> j' \<le> n
              | Some k' \<Rightarrow>
                  (if k' > 0 then - n \<le> j' \<and> j' \<le> n
                   else if k' < 0 then - n - 1 \<le> j' \<and> j' \<le> max 0 (n - 1)
                   else True))))"

text \<open>
  C5. A slice \<open>i:j:k\<close> with integer (or omitted) bounds, validated against an axis of
  size \<open>n\<close>, is returned unchanged when its bounds are within the limits of the spec and
  raises \<open>IndexError\<close> otherwise.
\<close>

theorem slice_bounds_checked:
  "validate_index eng
     (KSlice \<lparr>start = map_option SInt i, stop = map_option SInt j, step = k\<rparr>)
     (Some (n # rest)) =
   (if slice_in_bounds n i j k
    then Inr (KSlice \<lparr>start = map_option SInt i, stop = map_option SInt j, step = k\<rparr>)
    else Inl IndexError)"
  by (cases i; cases j; cases k)
     (auto simp: validate_slice_def validate_stop_def slice_in_bounds_def Let_def)

text \<open>
  On an axis of size 5 the slices \<open>-5:5\<close>, \<open>4:-6:-1\<close> and \<open>0:0\<close> are at the limits and pass;
  \<open>5:\<close>, \<open>:6\<close> and \<open>:-7:-1\<close> are one past them and raise.
\<close>

theorem slice_bounds_checked_witness:
  "validate_index example_engine
     (KSlice \<lparr>start = Some (SInt (- 5)), stop = Some (SInt 5), step = None\<rparr>) (Some [5])
     = Inr (KSlice \<lparr>start = Some (SInt (- 5)), stop = Some (SInt 5), step = None\<rparr>)
   \<and> validate_index example_engine
     (KSlice \<lparr>start = Some (SInt 4), stop = Some (SInt (- 6)), step = Some (- 1)\<rparr>) (Some [5])
     = Inr (KSlice \<lparr>start = Some (SInt 4), stop = Some (SInt (- 6)), step = Some (- 1)\<rparr>)
   \<and> validate_index example_engine
     (KSlice \<lparr>start = Some (SInt 5), stop = None, step = None\<rparr>) (Some [5])
     = Inl IndexError
   \<and> validate_index example_engine
     (KSlice \<lparr>start = None, stop = Some (SInt 6), step = None\<rparr>) (Some [5])
     = Inl IndexError
   \<and> validate_index example_engine
     (KSlice \<lparr>start = None, stop = Some (SInt (- 7)), step = Some (- 1)\<rparr>) (Some [5])
     = Inl IndexError"
  using slice_bounds_checked [of example_engine "Some (- 5)" "Some 5" None 5 "[]"]
        slice_bounds_checked [of example_engine "Some 4" "Some (- 6)" "Some (- 1)" 5 "[]"]
        slice_bounds_checked [of example_engine "Some 5" None None 5 "[]"]
        slice_bounds_checked [of example_engine None "Some 6" None 5 "[]"]
        slice_bounds_checked [of example_engine None "Some (- 7)" "Some (- 1)" 5 "[]"]
  by (simp add: slice_in_bounds_def)

subsection \<open>Rounding\<close>

text \<open>
  Rounding returns its argument exactly when the argument is representable, and a
  \<open>binary32\<close> value is a \<open>binary64\<close> value.
\<close>

lemma round_half_even_int: "round_half_even (of_int n) = n"
  by (simp add: round_half_even_def)

lemma round_to_exact: "round_to fmt q = Fin q \<longleftrightarrow> representable fmt q"
proof (cases "q = 0")
  case True
  then show ?thesis by (simp add: round_to_def representable_def)
next
  case False
  define u :: rat where "u = 2 powi ulp_exp fmt q"
  have u: "u \<noteq> 0" by (simp add: u_def)
  show ?thesis
  proof
    assume "round_to fmt q = Fin q"
    then have b: "\<not> 2 powi (emax fmt + 1) \<le> \<bar>of_int (round_half_even (q / u)) * u\<bar>"
      and y: "of_int (round_half_even (q / u)) * u = q"
      using False by (auto simp: round_to_def Let_def u_def split: if_splits)
    from y u have "q / u = of_int (round_half_even (q / u))"
      by (simp add: field_simps)
    then have "of_int \<lfloor>q / u\<rfloor> = q / u"
      by (metis floor_of_int)
    then show "representable fmt q"
      using b y by (simp add: representable_def u_def)
  next
    assume "representable fmt q"
    then have b: "\<bar>q\<bar> < 2 powi (emax fmt + 1)" and i: "of_int \<lfloor>q / u\<rfloor> = q / u"
      using False by (auto simp: representable_def u_def)
    have "round_half_even (q / u) = \<lfloor>q / u\<rfloor>"
      using round_half_even_int [of "\<lfloor>q / u\<rfloor>"] i by simp
    then have "of_int (round_half_even (q / u)) * u = (q / u) * u"
      using i by (simp only:)
    then have "of_int (round_half_even (q / u)) * u = q"
      using u by simp
    then show "round_to fmt q = Fin q"
      using False b by (simp add: round_to_def Let_def u_def)
  qed
qed

lemma powi_ge: "a \<le> b \<Longrightarrow> (2::rat) powi b = 2 powi a * 2 ^ nat (b - a)"
proof -
  assume le: "a \<le> b"
  have "(2::rat) powi b = 2 powi (a + (b - a))" by simp
  also have "\<dots> = 2 powi a * 2 powi (b - a)"
    by (rule power_int_add) simp
  also have "(2::rat) powi (b - a) = 2 ^ nat (b - a)"
    using le by (simp add: power_int_def)
  finally show ?thesis .
qed

lemma representable_widen:
  assumes "representable binary32 q"
  shows "representable binary64 q"
proof (cases "q = 0")
  case True
  then show ?thesis by (simp add: representable_def)
next
  case False
  define a where "a = ulp_exp binary64 q"
  define b where "b = ulp_exp binary32 q"
  have le: "a \<le> b"
    unfolding a_def b_def ulp_exp_def binary32_def binary64_def by (simp add: max_def)
  from assms False have bound: "\<bar>q\<bar> < 2 powi 128"
    and int: "of_int \<lfloor>q / 2 powi b\<rfloor> = q / 2 powi b"
    by (auto simp: representable_def b_def binary32_def)
  have "(2::rat) powi 128 \<le> 2 powi 1024" by (rule power_int_increasing) simp_all
  with bound have bound': "\<bar>q\<bar> < 2 powi 1024" by simp
  have "q / 2 powi a = (q / 2 powi b) * 2 ^ nat (b - a)"
    using powi_ge [OF le] by (simp add: field_simps)
  also have "\<dots> = of_int \<lfloor>q / 2 powi b\<rfloor> * 2 ^ nat (b - a)"
    using int by (simp only:)
  also have "\<dots> = of_int (\<lfloor>q / 2 powi b\<rfloor> * 2 ^ nat (b - a))"
    by simp
  finally have "of_int \<lfloor>q / 2 powi a\<rfloor> = q / 2 powi a"
    by (metis floor_of_int)
  then show ?thesis using bound' by (simp add: representable_def a_def binary64_def)
qed

subsection \<open>Promotion of a scalar\<close>

lemma dtype_classes:
  "d \<in> floating_dtypes \<Longrightarrow> d \<notin> boolean_dtypes \<and> d \<notin> integer_dtypes"
  "d \<in> integer_dtypes \<Longrightarrow> d \<notin> boolean_dtypes \<and> d \<notin> floating_dtypes"
  "d \<in> boolean_dtypes \<Longrightarrow> d \<notin> integer_dtypes \<and> d \<notin> floating_dtypes"
  by (auto simp: boolean_dtypes_def integer_dtypes_def floating_dtypes_def)

lemma representable_binary64:
  "representable (format_of d) q \<Longrightarrow> representable binary64 q"
  using representable_widen [of q] by (cases "d = Float32") (simp_all add: format_of_def)

lemma truncate_int: "truncate (of_int i) = i"
  by (simp add: truncate_def)

lemma numpy_item_bool:
  "d \<in> boolean_dtypes \<Longrightarrow> numpy_item (PBool b) d = Inr (EBool b)"
  by (simp add: numpy_item_def)

lemma numpy_item_int:
  "d \<in> integer_dtypes \<Longrightarrow> fst (int_bounds d) \<le> i \<Longrightarrow> i \<le> snd (int_bounds d) \<Longrightarrow>
   numpy_item (PInt i) d = Inr (EInt i)"
  using dtype_classes(2) [of d] by (simp add: numpy_item_def int_item_def)

lemma numpy_item_float:
  "d \<in> floating_dtypes \<Longrightarrow> numpy_item (PFloat f) d = Inr (EFloat (float_item (format_of d) f))"
  using dtype_classes(1) [of d] by (simp add: numpy_item_def)

lemma numpy_item_float_exact:
  "d \<in> floating_dtypes \<Longrightarrow> representable (format_of d) q \<Longrightarrow>
   numpy_item (PFloat (Fin q)) d = Inr (EFloat (Fin q))"
  using round_to_exact [of "format_of d" q] by (simp add: numpy_item_float float_item_def)

lemma numpy_item_int_float_exact:
  assumes "d \<in> floating_dtypes" and "representable (format_of d) (of_int i)"
  shows "numpy_item (PInt i) d = Inr (EFloat (Fin (of_int i)))"
proof -
  have "round_to binary64 (of_int i) = Fin (of_int i)"
    using representable_binary64 [OF assms(2)] round_to_exact by blast
  then have "int_to_double i = Inr (Fin (of_int i))" by (simp add: int_to_double_def)
  moreover have "round_to (format_of d) (of_int i) = Fin (of_int i)"
    using assms(2) round_to_exact by blast
  ultimately show ?thesis
    using dtype_classes(1) [OF assms(1)] by (simp add: numpy_item_def float_item_def)
qed

lemma promote_scalar_general:
  "promote_scalar eng self v =
     (case v of
        Scalar s \<Rightarrow>
          (if (case s of
                 PBool b \<Rightarrow> dtype self \<in> boolean_dtypes
               | PInt i \<Rightarrow> dtype self \<notin> boolean_dtypes
               | PFloat f \<Rightarrow> dtype self \<in> floating_dtypes)
           then (case np_item eng s (dtype self) of
                   Inl e \<Rightarrow> Inl e
                 | Inr x \<Rightarrow>
                     Inr (Array \<lparr>nd_dtype = dtype self, nd_shape = [], nd_data = [x]\<rparr>))
           else Inl TypeError)
      | Arr a \<Rightarrow> Inl TypeError
      | Other \<Rightarrow> Inl TypeError)"
  by (cases "(eng, self, v)" rule: promote_scalar.cases)
     (auto simp: np_array_def array_new_def split: sum.splits)

text \<open>
  C1 (amended). Promotion tests the kind of the scalar: a \<open>bool\<close> passes iff the dtype
  of \<open>self\<close> is boolean, an \<open>int\<close> iff it is not boolean, a \<open>float\<close> iff it is
  floating-point, anything else raises \<open>TypeError\<close>. A scalar that passes is handed to
  the engine, whose exception is raised unchanged; a result is zero-dimensional and has
  exactly the dtype of \<open>self\<close>. With the engine's conversion \<open>numpy_item\<close>: a \<open>bool\<close> and a
  \<open>float\<close> that pass always succeed, and the value stored equals the scalar for a
  \<open>bool\<close>, for an \<open>int\<close> in the range of an integer dtype and for a \<open>float\<close> or an \<open>int\<close>
  that the floating-point dtype represents; any other \<open>float\<close> is stored rounded to the
  format of the dtype.
\<close>

theorem promote_scalar_table:
  "promote_scalar eng self v =
     (case v of
        Scalar s \<Rightarrow>
          (if (case s of
                 PBool b \<Rightarrow> dtype self \<in> boolean_dtypes
               | PInt i \<Rightarrow> dtype self \<notin> boolean_dtypes
               | PFloat f \<Rightarrow> dtype self \<in> floating_dtypes)
           then (case np_item eng s (dtype self) of
                   Inl e \<Rightarrow> Inl e
                 | Inr x \<Rightarrow>
                     Inr (Array \<lparr>nd_dtype = dtype self, nd_shape = [], nd_data = [x]\<rparr>))
           else Inl TypeError)
      | Arr a \<Rightarrow> Inl TypeError
      | Other \<Rightarrow> Inl TypeError)
   \<and> (promote_scalar eng self v = Inr r \<longrightarrow> shape r = [] \<and> dtype r = dtype self)
   \<and> (np_item eng = numpy_item \<longrightarrow>
        promote_scalar eng self (Scalar (PBool b)) =
          (if dtype self \<in> boolean_dtypes
           then Inr (Array \<lparr>nd_dtype = dtype self, nd_shape = [], nd_data = [EBool b]\<rparr>)
           else Inl TypeError)
        \<and> promote_scalar eng self (Scalar (PFloat f)) =
          (if dtype self \<in> floating_dtypes
           then Inr (Array \<lparr>nd_dtype = dtype self, nd_shape = [],
                            nd_data = [EFloat (float_item (format_of (dtype self)) f)]\<rparr>)
           else Inl TypeError)
        \<and> (dtype self \<in> floating_dtypes \<and> representable (format_of (dtype self)) q \<longrightarrow>
             promote_scalar eng self (Scalar (PFloat (Fin q))) =
               Inr (Array \<lparr>nd_dtype = dtype self, nd_shape = [], nd_data = [EFloat (Fin q)]\<rparr>))
        \<and> (dtype self \<in> boolean_dtypes \<longrightarrow>
             promote_scalar eng self (Scalar (PInt i)) = Inl TypeError)
        \<and> (dtype self \<in> integer_dtypes
             \<and> fst (int_bounds (dtype self)) \<le> i \<and> i \<le> snd (int_bounds (dtype self)) \<longrightarrow>
             promote_scalar eng self (Scalar (PInt i)) =
               Inr (Array \<lparr>nd_dtype = dtype self, nd_shape = [], nd_data = [EInt i]\<rparr>))
        \<and> (dtype self \<in> floating_dtypes
             \<and> representable (format_of (dtype self)) (of_int i) \<longrightarrow>
             promote_scalar eng self (Scalar (PInt i)) =
               Inr (Array \<lparr>nd_dtype = dtype self, nd_shape = [],
                            nd_data = [EFloat (Fin (of_int i))]\<rparr>)))"
proof -
  note g = promote_scalar_general
  have shape: "promote_scalar eng self v = Inr r \<Longrightarrow> shape r = [] \<and> dtype r = dtype self"
    unfolding g
    by (auto simp: shape_def dtype_def split: operand.splits if_splits sum.splits)
  have b: "promote_scalar eng self (Scalar (PBool b)) =
          (if dtype self \<in> boolean_dtypes
           then Inr (Array \<lparr>nd_dtype = dtype self, nd_shape = [], nd_data = [EBool b]\<rparr>)
           else Inl TypeError)"
    if "np_item eng = numpy_item"
    using that numpy_item_bool [of "dtype self" b] by (simp add: g)
  have f: "promote_scalar eng self (Scalar (PFloat f)) =
          (if dtype self \<in> floating_dtypes
           then Inr (Array \<lparr>nd_dtype = dtype self, nd_shape = [],
                            nd_data = [EFloat (float_item (format_of (dtype self)) f)]\<rparr>)
           else Inl TypeError)"
    if "np_item eng = numpy_item"
    using that numpy_item_float [of "dtype self" f] by (simp add: g)
  have fe: "promote_scalar eng self (Scalar (PFloat (Fin q))) =
               Inr (Array \<lparr>nd_dtype = dtype self, nd_shape = [], nd_data = [EFloat (Fin q)]\<rparr>)"
    if "np_item eng = numpy_item" "dtype self \<in> floating_dtypes"
      "representable (format_of (dtype self)) q"
    using that numpy_item_float_exact [of "dtype self" q] by (simp add: g)
  have ib: "promote_scalar eng self (Scalar (PInt i)) = Inl TypeError"
    if "dtype self \<in> boolean_dtypes"
    using that by (simp add: g)
  have ii: "promote_scalar eng self (Scalar (PInt i)) =
               Inr (Array \<lparr>nd_dtype = dtype self, nd_shape = [], nd_data = [EInt i]\<rparr>)"
    if "np_item eng = numpy_item" "dtype self \<in> integer_dtypes"
      "fst (int_bounds (dtype self)) \<le> i" "i \<le> snd (int_bounds (dtype self))"
    using that numpy_item_int [of "dtype self" i] dtype_classes(2) [of "dtype self"]
    by (simp add: g)
  have ife: "promote_scalar eng self (Scalar (PInt i)) =
               Inr (Array \<lparr>nd_dtype = dtype self, nd_shape = [],
                            nd_data = [EFloat (Fin (of_int i))]\<rparr>)"
    if "np_item eng = numpy_item" "dtype self \<in> floating_dtypes"
      "representable (format_of (dtype self)) (of_int i)"
    using that numpy_item_int_float_exact [of "dtype self" i] dtype_classes(1) [of "dtype self"]
    by (simp add: g)
  show ?thesis using g shape b f fe ib ii ife by blast
qed

text \<open>
  \<open>True\<close> on a boolean array, 127 on \<open>int8\<close> and 0.375 on \<open>float32\<close> are stored as they
  are; \<open>True\<close> on \<open>int8\<close> raises.
\<close>

theorem promote_scalar_table_witness:
  "promote_scalar scalar_engine
      (Array \<lparr>nd_dtype = Bool, nd_shape = [2], nd_data = [EBool False, EBool True]\<rparr>)
      (Scalar (PBool True))
    = Inr (Array \<lparr>nd_dtype = Bool, nd_shape = [], nd_data = [EBool True]\<rparr>)
   \<and> promote_scalar scalar_engine
      (Array \<lparr>nd_dtype = Int8, nd_shape = [2], nd_data = [EInt 0, EInt 1]\<rparr>)
      (Scalar (PBool True))
    = Inl TypeError
   \<and> promote_scalar scalar_engine
      (Array \<lparr>nd_dtype = Int8, nd_shape = [2], nd_data = [EInt 0, EInt 1]\<rparr>)
      (Scalar (PInt 127))
    = Inr (Array \<lparr>nd_dtype = Int8, nd_shape = [], nd_data = [EInt 127]\<rparr>)
   \<and> promote_scalar scalar_engine
      (Array \<lparr>nd_dtype = Float32, nd_shape = [2], nd_data = [EFloat (Fin 0), EFloat (Fin 1)]\<rparr>)
      (Scalar (PFloat (Fin (3 / 8))))
    = Inr (Array \<lparr>nd_dtype = Float32, nd_shape = [], nd_data = [EFloat (Fin (3 / 8))]\<rparr>)"
proof -
  let ?b = "Array \<lparr>nd_dtype = Bool, nd_shape = [2], nd_data = [EBool False, EBool True]\<rparr>"
  let ?i = "Array \<lparr>nd_dtype = Int8, nd_shape = [2], nd_data = [EInt 0, EInt 1]\<rparr>"
  let ?f = "Array \<lparr>nd_dtype = Float32, nd_shape = [2],
                   nd_data = [EFloat (Fin 0), EFloat (Fin 1)]\<rparr>"
  have e: "np_item scalar_engine = numpy_item" by (simp add: scalar_engine_def)
  have hb: "dtype ?b \<in> boolean_dtypes" by (simp add: dtype_def boolean_dtypes_def)
  have hi: "dtype ?i \<notin> boolean_dtypes" "dtype ?i \<in> integer_dtypes"
    "fst (int_bounds (dtype ?i)) \<le> 127 \<and> 127 \<le> snd (int_bounds (dtype ?i))"
    by (simp_all add: dtype_def boolean_dtypes_def integer_dtypes_def int_bounds_def)
  have hf: "dtype ?f \<in> floating_dtypes \<and> representable (format_of (dtype ?f)) (3 / 8)"
    by code_simp
  have d: "dtype ?b = Bool" "dtype ?i = Int8" "dtype ?f = Float32" by (simp_all add: dtype_def)
  have "promote_scalar scalar_engine ?b (Scalar (PBool True)) =
          (if dtype ?b \<in> boolean_dtypes
           then Inr (Array \<lparr>nd_dtype = dtype ?b, nd_shape = [], nd_data = [EBool True]\<rparr>)
           else Inl TypeError)"
    using promote_scalar_table
            [of scalar_engine ?b "Scalar (PBool True)" ?b True "Fin 0" 0 0] e
    by blast
  then have 1: "promote_scalar scalar_engine ?b (Scalar (PBool True))
      = Inr (Array \<lparr>nd_dtype = Bool, nd_shape = [], nd_data = [EBool True]\<rparr>)"
    using hb by (simp only: if_True d)
  have "promote_scalar scalar_engine ?i (Scalar (PBool True)) =
          (if dtype ?i \<in> boolean_dtypes
           then Inr (Array \<lparr>nd_dtype = dtype ?i, nd_shape = [], nd_data = [EBool True]\<rparr>)
           else Inl TypeError)"
    using promote_scalar_table
            [of scalar_engine ?i "Scalar (PBool True)" ?i True "Fin 0" 0 0] e
    by blast
  then have 2: "promote_scalar scalar_engine ?i (Scalar (PBool True)) = Inl TypeError"
    using hi(1) by (simp only: if_False)
  have "promote_scalar scalar_engine ?i (Scalar (PInt 127))
      = Inr (Array \<lparr>nd_dtype = dtype ?i, nd_shape = [], nd_data = [EInt 127]\<rparr>)"
    using promote_scalar_table
            [of scalar_engine ?i "Scalar (PBool True)" ?i True "Fin 0" 0 127] e hi(2,3)
    by blast
  then have 3: "promote_scalar scalar_engine ?i (Scalar (PInt 127))
      = Inr (Array \<lparr>nd_dtype = Int8, nd_shape = [], nd_data = [EInt 127]\<rparr>)"
    by (simp only: d)
  have "promote_scalar scalar_engine ?f (Scalar (PFloat (Fin (3 / 8))))
      = Inr (Array \<lparr>nd_dtype = dtype ?f, nd_shape = [], nd_data = [EFloat (Fin (3 / 8))]\<rparr>)"
    using promote_scalar_table
            [of scalar_engine ?f "Scalar (PBool True)" ?f True "Fin 0" "3 / 8" 0] e hf
    by blast
  then have 4: "promote_scalar scalar_engine ?f (Scalar (PFloat (Fin (3 / 8))))
      = Inr (Array \<lparr>nd_dtype = Float32, nd_shape = [], nd_data = [EFloat (Fin (3 / 8))]\<rparr>)"
    by (simp only: d)
  show ?thesis using 1 2 3 4 by blast
qed

text \<open>
  The claim as stated fails where the engine does not store the scalar as it is:
  \<open>2 ** 64\<close> on an \<open>int64\<close> array passes the test and raises \<open>OverflowError\<close>, 300 on an
  \<open>int8\<close> array is cast to 44, and the float 16777217.0 on a \<open>float32\<close> array is stored as
  16777216.0.
\<close>

theorem promote_scalar_overflow_counterexample:
  "promote_scalar scalar_engine
      (Array \<lparr>nd_dtype = Int64, nd_shape = [], nd_data = [EInt 0]\<rparr>) (Scalar (PInt (2 ^ 64)))
    = Inl OverflowError
   \<and> promote_scalar scalar_engine
      (Array \<lparr>nd_dtype = Int8, nd_shape = [], nd_data = [EInt 0]\<rparr>) (Scalar (PInt 300))
    = Inr (Array \<lparr>nd_dtype = Int8, nd_shape = [], nd_data = [EInt 44]\<rparr>)
   \<and> representable binary64 16777217
   \<and> promote_scalar scalar_engine
      (Array \<lparr>nd_dtype = Float32, nd_shape = [], nd_data = [EFloat (Fin 0)]\<rparr>)
      (Scalar (PFloat (Fin 16777217)))
    = Inr (Array \<lparr>nd_dtype = Float32, nd_shape = [], nd_data = [EFloat (Fin 16777216)]\<rparr>)"
  by code_simp

subsection \<open>Normalisation of zero-dimensional operands\<close>

text \<open>
  C2 (amended). \<open>_normalize_two_args\<close> gives a zero-dimensional operand paired with one
  that is not a leading dimension of size 1, on the same buffer and with the same dtype,
  and changes nothing when both or neither are zero-dimensional. The operators that are
  neither in-place nor a shift, a power or a matrix product hand the normalised pair to
  the engine; the in-place operators hand it the operands as they are.
\<close>

theorem normalize_two_args_cases:
  "(shape a = [] \<and> shape b \<noteq> [] \<longrightarrow>
      normalize_two_args a b = (Array ((array_of a)\<lparr>nd_shape := [1]\<rparr>), b)
      \<and> dtype (fst (normalize_two_args a b)) = dtype a
      \<and> nd_data (array_of (fst (normalize_two_args a b))) = nd_data (array_of a))
   \<and> (shape b = [] \<and> shape a \<noteq> [] \<longrightarrow>
      normalize_two_args a b = (a, Array ((array_of b)\<lparr>nd_shape := [1]\<rparr>))
      \<and> dtype (snd (normalize_two_args a b)) = dtype b
      \<and> nd_data (array_of (snd (normalize_two_args a b))) = nd_data (array_of b))
   \<and> ((shape a = [] \<longleftrightarrow> shape b = []) \<longrightarrow> normalize_two_args a b = (a, b))
   \<and> binary_method name eng a (Arr b) =
       map_sum id array_new
         (nd_method eng name (array_of (fst (normalize_two_args a b)))
            (array_of (snd (normalize_two_args a b))))
   \<and> (dtype a \<in> floating_dtypes \<and> dtype b \<in> floating_dtypes \<longrightarrow>
       truediv_method name eng a (Arr b) =
         map_sum id array_new
           (nd_method eng name (array_of (fst (normalize_two_args a b)))
              (array_of (snd (normalize_two_args a b)))))
   \<and> inplace_method name eng a (Arr b) =
       (case nd_inplace eng name (array_of a) (array_of b) of
          Inl e \<Rightarrow> Inl e
        | Inr buf \<Rightarrow> Inr (Array ((array_of a)\<lparr>nd_data := buf\<rparr>)))"
  by (auto simp: normalize_two_args_def nd_newaxis_def array_new_def shape_def dtype_def
        binary_method_def truediv_method_def inplace_method_def promote_other_def
        floating_only_def)

theorem normalize_two_args_cases_witness:
  "normalize_two_args
      (Array \<lparr>nd_dtype = Float64, nd_shape = [], nd_data = [1::int]\<rparr>)
      (Array \<lparr>nd_dtype = Float32, nd_shape = [2], nd_data = [1, 2]\<rparr>)
    = (Array \<lparr>nd_dtype = Float64, nd_shape = [1], nd_data = [1]\<rparr>,
       Array \<lparr>nd_dtype = Float32, nd_shape = [2], nd_data = [1, 2]\<rparr>)
   \<and> normalize_two_args
      (Array \<lparr>nd_dtype = Float32, nd_shape = [2], nd_data = [1, 2]\<rparr>)
      (Array \<lparr>nd_dtype = Float64, nd_shape = [], nd_data = [1::int]\<rparr>)
    = (Array \<lparr>nd_dtype = Float32, nd_shape = [2], nd_data = [1, 2]\<rparr>,
       Array \<lparr>nd_dtype = Float64, nd_shape = [1], nd_data = [1]\<rparr>)
   \<and> array_add example_engine
      (Array \<lparr>nd_dtype = Float32, nd_shape = [2], nd_data = [1, 2]\<rparr>)
      (Arr (Array \<lparr>nd_dtype = Float64, nd_shape = [], nd_data = [1]\<rparr>))
    = Inr (Array \<lparr>nd_dtype = Float64, nd_shape = [2], nd_data = [2, 3]\<rparr>)"
proof -
  let ?s = "Array \<lparr>nd_dtype = Float64, nd_shape = [], nd_data = [1::int]\<rparr>"
  let ?v = "Array \<lparr>nd_dtype = Float32, nd_shape = [2], nd_data = [1, 2::int]\<rparr>"
  have 1: "shape ?s = [] \<and> shape ?v \<noteq> []" by (simp add: shape_def)
  have 2: "dtype ?s \<in> floating_dtypes \<and> dtype ?v \<in> floating_dtypes"
    by (simp add: dtype_def floating_dtypes_def)
  have 3: "\<not> (shape ?s = [] \<longleftrightarrow> shape ?v = [])" by (simp add: shape_def)
  note a = normalize_two_args_cases [of ?s ?v "''__add__''" example_engine]
  note b = normalize_two_args_cases [of ?v ?s "''__add__''" example_engine]
  have n1: "normalize_two_args ?s ?v = (Array ((array_of ?s)\<lparr>nd_shape := [1]\<rparr>), ?v)"
    using a 1 by blast
  have n2: "normalize_two_args ?v ?s = (?v, Array ((array_of ?s)\<lparr>nd_shape := [1]\<rparr>))"
    using b 1 by blast
  have m: "binary_method ''__add__'' example_engine ?v (Arr ?s) =
       map_sum id array_new
         (nd_method example_engine ''__add__'' (array_of (fst (normalize_two_args ?v ?s)))
            (array_of (snd (normalize_two_args ?v ?s))))"
    using b by blast
  have e: "array_add example_engine ?v (Arr ?s)
      = Inr (Array \<lparr>nd_dtype = Float64, nd_shape = [2], nd_data = [2, 3]\<rparr>)"
    unfolding array_add_def m n2
    by (simp add: example_engine_def example_method_def example_fun_def broadcast2_def
          dtype_rank_def array_new_def)
  show ?thesis using n1 n2 e by simp
qed

text \<open>
  The claim as stated fails on the in-place operators. With the engine that reports
  the number of dimensions of its right operand, \<open>__add__\<close> on shapes \<open>(2,)\<close> and \<open>()\<close>
  sees one dimension (the normalised operand) and \<open>__iadd__\<close> sees none.
\<close>

theorem inplace_not_normalized_counterexample:
  "array_add rank_probe
      (Array \<lparr>nd_dtype = Int64, nd_shape = [2], nd_data = [5, 6]\<rparr>)
      (Arr (Array \<lparr>nd_dtype = Int64, nd_shape = [], nd_data = [1]\<rparr>))
    = Inr (Array \<lparr>nd_dtype = Int64, nd_shape = [2], nd_data = [1, 1]\<rparr>)
   \<and> array_iadd rank_probe
      (Array \<lparr>nd_dtype = Int64, nd_shape = [2], nd_data = [5, 6]\<rparr>)
      (Arr (Array \<lparr>nd_dtype = Int64, nd_shape = [], nd_data = [1]\<rparr>))
    = Inr (Array \<lparr>nd_dtype = Int64, nd_shape = [2], nd_data = [0, 0]\<rparr>)"
  by code_simp

subsection \<open>Division and power\<close>

lemma truediv_method_gate:
  assumes "promote_other eng self other = Inr (Arr other')"
  shows "truediv_method name eng self other =
     (if dtype self \<notin> floating_dtypes \<or> dtype other' \<notin> floating_dtypes then Inl TypeError
      else map_sum id array_new
             (nd_method eng name (array_of (fst (normalize_two_args self other')))
                (array_of (snd (normalize_two_args self other')))))"
  using assms by (auto simp: truediv_method_def floating_only_def split: prod.splits)

lemma floating_inplace_method_gate:
  assumes "promote_other eng self other = Inr (Arr other')"
  shows "floating_inplace_method name eng self other =
     (if dtype self \<notin> floating_dtypes \<or> dtype other' \<notin> floating_dtypes then Inl TypeError
      else (case nd_inplace eng name (array_of self) (array_of other') of
              Inl e \<Rightarrow> Inl e
            | Inr buf \<Rightarrow> Inr (Array ((array_of self)\<lparr>nd_data := buf\<rparr>))))"
  using assms by (auto simp: floating_inplace_method_def floating_only_def)

lemma array_pow_gate:
  assumes "promote_other eng self other = Inr (Arr other')"
  shows "array_pow eng self other =
     (if dtype self \<notin> floating_dtypes \<or> dtype other' \<notin> floating_dtypes then Inl TypeError
      else ew_pow eng self other')"
  using assms by (auto simp: array_pow_def floating_only_def)

lemma array_rpow_gate:
  assumes "promote_other eng self other = Inr (Arr other')"
  shows "array_rpow eng self other =
     (if dtype self \<notin> floating_dtypes \<or> dtype other' \<notin> floating_dtypes then Inl TypeError
      else ew_pow eng other' self)"
  using assms by (auto simp: array_rpow_def floating_only_def)

text \<open>
  C3. Let \<open>other'\<close> be the right operand after scalar promotion. When the dtype of
  \<open>self\<close> or of \<open>other'\<close> is not floating-point, \<open>__truediv__\<close>, \<open>__rtruediv__\<close>,
  \<open>__itruediv__\<close>, \<open>__pow__\<close>, \<open>__rpow__\<close> and \<open>__ipow__\<close> raise \<open>TypeError\<close>; when both are
  floating-point each of them is the call into the engine.
\<close>

theorem division_and_power_need_floats:
  assumes "promote_other eng self other = Inr (Arr other')"
  shows
  "(dtype self \<notin> floating_dtypes \<or> dtype other' \<notin> floating_dtypes \<longrightarrow>
      array_truediv eng self other = Inl TypeError
      \<and> array_rtruediv eng self other = Inl TypeError
      \<and> array_itruediv eng self other = Inl TypeError
      \<and> array_pow eng self other = Inl TypeError
      \<and> array_rpow eng self other = Inl TypeError
      \<and> array_ipow eng self other = Inl TypeError)
   \<and> (dtype self \<in> floating_dtypes \<and> dtype other' \<in> floating_dtypes \<longrightarrow>
      array_truediv eng self other =
        map_sum id array_new
          (nd_method eng ''__truediv__'' (array_of (fst (normalize_two_args self other')))
             (array_of (snd (normalize_two_args self other'))))
      \<and> array_rtruediv eng self other =
        map_sum id array_new
          (nd_method eng ''__rtruediv__'' (array_of (fst (normalize_two_args self other')))
             (array_of (snd (normalize_two_args self other'))))
      \<and> array_itruediv eng self other =
        (case nd_inplace eng ''__itruediv__'' (array_of self) (array_of other') of
           Inl e \<Rightarrow> Inl e
         | Inr buf \<Rightarrow> Inr (Array ((array_of self)\<lparr>nd_data := buf\<rparr>)))
      \<and> array_pow eng self other = ew_pow eng self other'
      \<and> array_rpow eng self other = ew_pow eng other' self
      \<and> array_ipow eng self other =
        (case nd_inplace eng ''__ipow__'' (array_of self) (array_of other') of
           Inl e \<Rightarrow> Inl e
         | Inr buf \<Rightarrow> Inr (Array ((array_of self)\<lparr>nd_data := buf\<rparr>))))"
  unfolding array_truediv_def array_rtruediv_def array_itruediv_def array_ipow_def
  using truediv_method_gate [OF assms] floating_inplace_method_gate [OF assms]
        array_pow_gate [OF assms] array_rpow_gate [OF assms]
  by simp

text \<open>
  \<open>2.0 ** 3.0\<close> is \<open>8.0\<close> and \<open>6.0 / 2.0\<close> is \<open>3.0\<close> on the example engine; an integer array
  to the power \<open>2\<close> raises \<open>TypeError\<close>.
\<close>

theorem division_and_power_need_floats_witness:
  "array_pow example_engine (Array \<lparr>nd_dtype = Float64, nd_shape = [], nd_data = [2]\<rparr>)
      (Scalar (PFloat 3))
    = Inr (Array \<lparr>nd_dtype = Float64, nd_shape = [], nd_data = [8]\<rparr>)
   \<and> array_truediv example_engine (Array \<lparr>nd_dtype = Float64, nd_shape = [], nd_data = [6]\<rparr>)
      (Scalar (PFloat 2))
    = Inr (Array \<lparr>nd_dtype = Float64, nd_shape = [], nd_data = [3]\<rparr>)
   \<and> array_pow example_engine (Array \<lparr>nd_dtype = Int64, nd_shape = [], nd_data = [2]\<rparr>)
      (Scalar (PInt 2))
    = Inl TypeError"
proof -
  let ?x = "Array \<lparr>nd_dtype = Float64, nd_shape = [], nd_data = [2::int]\<rparr>"
  let ?y = "Array \<lparr>nd_dtype = Float64, nd_shape = [], nd_data = [3::int]\<rparr>"
  let ?u = "Array \<lparr>nd_dtype = Float64, nd_shape = [], nd_data = [6::int]\<rparr>"
  let ?i = "Array \<lparr>nd_dtype = Int64, nd_shape = [], nd_data = [2::int]\<rparr>"
  have p1: "promote_other example_engine ?x (Scalar (PFloat 3)) = Inr (Arr ?y)"
    by code_simp
  have p2: "promote_other example_engine ?u (Scalar (PFloat 2)) = Inr (Arr ?x)"
    by code_simp
  have p3: "promote_other example_engine ?i (Scalar (PInt 2)) = Inr (Arr ?i)"
    by code_simp
  have f: "dtype ?x \<in> floating_dtypes" "dtype ?y \<in> floating_dtypes"
    "dtype ?u \<in> floating_dtypes" "dtype ?i \<notin> floating_dtypes"
    by (simp_all add: dtype_def floating_dtypes_def)
  have e1: "ew_pow example_engine ?x ?y
      = Inr (Array \<lparr>nd_dtype = Float64, nd_shape = [], nd_data = [8]\<rparr>)"
    by code_simp
  have e2: "map_sum id array_new
          (nd_method example_engine ''__truediv__''
             (array_of (fst (normalize_two_args ?u ?x)))
             (array_of (snd (normalize_two_args ?u ?x))))
      = Inr (Array \<lparr>nd_dtype = Float64, nd_shape = [], nd_data = [3]\<rparr>)"
    by code_simp
  from division_and_power_need_floats [OF p1] f e1
  have a: "array_pow example_engine ?x (Scalar (PFloat 3))
      = Inr (Array \<lparr>nd_dtype = Float64, nd_shape = [], nd_data = [8]\<rparr>)"
    by simp
  from division_and_power_need_floats [OF p2] f e2
  have b: "array_truediv example_engine ?u (Scalar (PFloat 2))
      = Inr (Array \<lparr>nd_dtype = Float64, nd_shape = [], nd_data = [3]\<rparr>)"
    by simp
  from division_and_power_need_floats [OF p3] f
  have c: "array_pow example_engine ?i (Scalar (PInt 2)) = Inl TypeError"
    by blast
  show ?thesis using a b c by blast
qed

subsection \<open>Shifts\<close>

lemma shift_method_dtype:
  "shift_method name eng self other = Inr r \<Longrightarrow> dtype r = dtype self"
  by (auto simp: shift_method_def nd_astype_def array_new_def dtype_def
        split: sum.splits operand.splits)

lemma reflected_shift_method_dtype:
  "reflected_shift_method name eng self other = Inr r \<Longrightarrow>
   \<exists>other'. promote_other eng self other = Inr (Arr other') \<and> dtype r = dtype other'"
  by (auto simp: reflected_shift_method_def nd_astype_def array_new_def dtype_def
        split: sum.splits operand.splits)

lemma inplace_method_dtype:
  "inplace_method name eng self other = Inr r \<Longrightarrow> dtype r = dtype self"
  by (auto simp: inplace_method_def dtype_def split: sum.splits operand.splits)

lemma promote_other_dtype:
  "promote_other eng self (Scalar s) = Inr (Arr other') \<Longrightarrow> dtype other' = dtype self"
  by (cases s)
     (auto simp: promote_other_def np_array_def array_new_def dtype_def
        split: if_splits sum.splits)

text \<open>
  C4. A shift that returns has the dtype of the left operand of the shift: the dtype
  of \<open>self\<close> for \<open>__lshift__\<close>, \<open>__rshift__\<close> and their in-place forms, and for the
  reflected \<open>__rlshift__\<close> and \<open>__rrshift__\<close> the dtype of \<open>other\<close> (after promotion, which
  gives a scalar the dtype of \<open>self\<close>), whatever dtype the engine's result has.
\<close>

theorem shift_keeps_left_dtype:
  "(array_lshift eng self other = Inr r \<longrightarrow> dtype r = dtype self)
   \<and> (array_rshift eng self other = Inr r \<longrightarrow> dtype r = dtype self)
   \<and> (array_ilshift eng self other = Inr r \<longrightarrow> dtype r = dtype self)
   \<and> (array_irshift eng self other = Inr r \<longrightarrow> dtype r = dtype self)
   \<and> (array_rlshift eng self (Arr a) = Inr r \<longrightarrow> dtype r = dtype a)
   \<and> (array_rrshift eng self (Arr a) = Inr r \<longrightarrow> dtype r = dtype a)
   \<and> (array_rlshift eng self (Scalar s) = Inr r \<longrightarrow> dtype r = dtype self)
   \<and> (array_rrshift eng self (Scalar s) = Inr r \<longrightarrow> dtype r = dtype self)"
proof -
  have "reflected_shift_method name eng self (Arr a) = Inr r \<Longrightarrow> dtype r = dtype a"
    for name
    using reflected_shift_method_dtype [of name eng self "Arr a" r]
    by (auto simp: promote_other_def)
  moreover have
    "reflected_shift_method name eng self (Scalar s) = Inr r \<Longrightarrow> dtype r = dtype self"
    for name
    using reflected_shift_method_dtype [of name eng self "Scalar s" r] promote_other_dtype
    by fastforce
  ultimately show ?thesis
    unfolding array_lshift_def array_rshift_def array_ilshift_def array_irshift_def
      array_rlshift_def array_rrshift_def
    using shift_method_dtype inplace_method_dtype by blast
qed

text \<open>
  An \<open>int8\<close> array shifted by an \<open>int64\<close> array: the example engine computes in \<open>int64\<close>,
  the wrapper returns \<open>int8\<close>; \<open>1 << arr\<close> has the dtype of \<open>arr\<close>.
\<close>

theorem shift_keeps_left_dtype_witness:
  "example_method ''__lshift__'' \<lparr>nd_dtype = Int8, nd_shape = [2], nd_data = [1, 2]\<rparr>
      \<lparr>nd_dtype = Int64, nd_shape = [2], nd_data = [3, 3]\<rparr>
    = Inr \<lparr>nd_dtype = Int64, nd_shape = [2], nd_data = [8, 16]\<rparr>
   \<and> array_lshift example_engine
      (Array \<lparr>nd_dtype = Int8, nd_shape = [2], nd_data = [1, 2]\<rparr>)
      (Arr (Array \<lparr>nd_dtype = Int64, nd_shape = [2], nd_data = [3, 3]\<rparr>))
    = Inr (Array \<lparr>nd_dtype = Int8, nd_shape = [2], nd_data = [8, 16]\<rparr>)
   \<and> dtype (Array \<lparr>nd_dtype = Int8, nd_shape = [2], nd_data = [8, 16::int]\<rparr>) = Int8
   \<and> array_rlshift example_engine
      (Array \<lparr>nd_dtype = Int8, nd_shape = [2], nd_data = [1, 2]\<rparr>)
      (Scalar (PInt 1))
    = Inr (Array \<lparr>nd_dtype = Int8, nd_shape = [2], nd_data = [2, 4]\<rparr>)"
proof -
  let ?a = "Array \<lparr>nd_dtype = Int8, nd_shape = [2], nd_data = [1, 2::int]\<rparr>"
  let ?b = "Array \<lparr>nd_dtype = Int64, nd_shape = [2], nd_data = [3, 3::int]\<rparr>"
  let ?r = "Array \<lparr>nd_dtype = Int8, nd_shape = [2], nd_data = [8, 16::int]\<rparr>"
  have m: "example_method ''__lshift__'' (array_of ?a) (array_of ?b)
      = Inr \<lparr>nd_dtype = Int64, nd_shape = [2], nd_data = [8, 16]\<rparr>"
    by code_simp
  have l: "array_lshift example_engine ?a (Arr ?b) = Inr ?r"
    by code_simp
  have d: "dtype ?r = dtype ?a"
    using shift_keeps_left_dtype [of example_engine ?a "Arr ?b" ?r] l by blast
  have rl: "array_rlshift example_engine ?a (Scalar (PInt 1))
      = Inr (Array \<lparr>nd_dtype = Int8, nd_shape = [2], nd_data = [2, 4]\<rparr>)"
    by code_simp
  show ?thesis using m l d rl by (simp add: dtype_def)
qed

subsection \<open>Boolean masks in a tuple\<close>

lemma sequence_results_error:
  "sequence_results rs = Inl e \<Longrightarrow> Inl e \<in> set rs"
  by (induction rs) (auto split: sum.splits)

lemma sequence_results_image:
  "sequence_results (map f ks) = Inr key \<Longrightarrow> k \<in> set ks \<Longrightarrow> \<exists>k' \<in> set key. f k = Inr k'"
proof (induction ks arbitrary: key)
  case Nil
  then show ?case by simp
next
  case (Cons x ks)
  then show ?case by (auto split: sum.splits)
qed

text \<open>
  Without a shape the validator raises nothing but \<open>IndexError\<close>.
\<close>

lemma validate_index_error:
  "validate_index eng k shp = Inl e \<Longrightarrow> shp = None \<Longrightarrow> e = IndexError"
proof (induction eng k shp arbitrary: e rule: validate_index.induct)
  case (1 eng s shp)
  then show ?case by (simp add: validate_slice_def)
next
  case (2 eng ks shp)
  show ?case
  proof (cases "sequence_results (map (\<lambda>idx. validate_index eng idx None) ks)")
    case (Inl e')
    then have "e' = e" using "2.prems" by simp
    moreover from sequence_results_error [OF Inl]
    obtain x where "x \<in> set ks" "validate_index eng x None = Inl e'" by auto
    ultimately show ?thesis using "2.IH"(1) by blast
  next
    case (Inr key)
    then show ?thesis using "2.prems" by (auto split: option.splits if_splits)
  qed
qed (auto split: if_splits option.splits)

text \<open>
  A boolean mask, in the words of the claim: a boolean scalar or a Wrapped Array of
  boolean dtype.
\<close>

fun boolean_mask :: "'e key \<Rightarrow> bool" where
  "boolean_mask (KBool b) = True"
| "boolean_mask (KArray a) = (dtype a \<in> boolean_dtypes)"
| "boolean_mask _ = False"

lemma boolean_mask_validated:
  "boolean_mask k \<Longrightarrow> validate_index eng k None = Inr k' \<Longrightarrow> is_mask k'"
  by (cases k) (auto simp: dtype_def split: if_splits)

text \<open>
  C6. A tuple of more than one element that holds a boolean mask raises \<open>IndexError\<close>,
  whatever the other elements and the shape are; a one-element tuple holding a mask and
  a mask alone are accepted.
\<close>

theorem mask_only_alone:
  "(1 < length ks \<and> (\<exists>k \<in> set ks. boolean_mask k) \<longrightarrow>
      validate_index eng (KTuple ks) shp = Inl IndexError)
   \<and> validate_index eng (KTuple [KBool b]) shp = Inr (KTuple [KBool b])
   \<and> validate_index eng (KBool b) shp = Inr (KBool b)
   \<and> (dtype a \<in> boolean_dtypes \<longrightarrow>
        validate_index eng (KTuple [KArray a]) shp = Inr (KTuple [KNdarray (array_of a)])
        \<and> validate_index eng (KArray a) shp = Inr (KNdarray (array_of a)))"
proof -
  have many: "validate_index eng (KTuple ks) shp = Inl IndexError"
    if len: "1 < length ks" and k: "k \<in> set ks" and mask: "boolean_mask k" for k
  proof (cases "sequence_results (map (\<lambda>idx. validate_index eng idx None) ks)")
    case (Inl e)
    from sequence_results_error [OF Inl]
    obtain x where "validate_index eng x None = Inl e" by auto
    then have "e = IndexError" using validate_index_error by blast
    then show ?thesis using Inl by simp
  next
    case (Inr key)
    from sequence_results_image [OF Inr k]
    obtain k' where k': "k' \<in> set key" "validate_index eng k None = Inr k'" by blast
    then have "is_mask k'" using boolean_mask_validated [OF mask] by blast
    then have "find is_mask key \<noteq> None" using k'(1) by (auto simp: find_None_iff)
    moreover have "length key \<noteq> 1"
      using sequence_results_length [OF Inr] len by simp
    ultimately show ?thesis using Inr by (auto split: option.splits)
  qed
  have disjoint: "dtype a \<in> boolean_dtypes \<Longrightarrow> dtype a \<notin> integer_dtypes"
    by (auto simp: boolean_dtypes_def integer_dtypes_def)
  have one: "validate_index eng (KTuple [KArray a]) shp = Inr (KTuple [KNdarray (array_of a)])"
    if "dtype a \<in> boolean_dtypes"
    using that disjoint by (simp add: dtype_def)
  have lone: "validate_index eng (KArray a) shp = Inr (KNdarray (array_of a))"
    if "dtype a \<in> boolean_dtypes"
    using that disjoint by simp
  show ?thesis using many one lone by auto
qed

text \<open>
  On a 2-D array of shape \<open>(2, 3)\<close>: the tuple \<open>(mask, 0)\<close> raises, \<open>(mask,)\<close> passes.
\<close>

theorem mask_only_alone_witness:
  "validate_index example_engine
      (KTuple [KArray (Array \<lparr>nd_dtype = Bool, nd_shape = [2, 3], nd_data = [1, 0, 0, 1, 1, 0]\<rparr>),
               KInt 0])
      (Some [2, 3])
    = Inl IndexError
   \<and> validate_index example_engine
      (KTuple [KArray (Array \<lparr>nd_dtype = Bool, nd_shape = [2, 3], nd_data = [1, 0, 0, 1, 1, 0]\<rparr>)])
      (Some [2, 3])
    = Inr (KTuple [KNdarray \<lparr>nd_dtype = Bool, nd_shape = [2, 3], nd_data = [1, 0, 0, 1, 1, 0]\<rparr>])"
proof -
  let ?m = "Array \<lparr>nd_dtype = Bool, nd_shape = [2, 3], nd_data = [1, 0, 0, 1, 1, 0::int]\<rparr>"
  have b: "dtype ?m \<in> boolean_dtypes" by (simp add: dtype_def boolean_dtypes_def)
  have h: "1 < length [KArray ?m, KInt 0] \<and> (\<exists>k \<in> set [KArray ?m, KInt 0]. boolean_mask k)"
    using b by simp
  from mask_only_alone [of "[KArray ?m, KInt 0]" example_engine "Some [2, 3]" True ?m] h
  have 1: "validate_index example_engine (KTuple [KArray ?m, KInt 0]) (Some [2, 3])
      = Inl IndexError"
    by blast
  from mask_only_alone [of "[]" example_engine "Some [2, 3]" True ?m] b
  have 2: "validate_index example_engine (KTuple [KArray ?m]) (Some [2, 3])
      = Inr (KTuple [KNdarray (array_of ?m)])"
    by blast
  show ?thesis using 1 2 by simp
qed

subsection \<open>Arrays as indices\<close>




subsection \<open>In-place matrix product\<close>

lemma last_butlast_nth:
  "2 \<le> length xs \<Longrightarrow> last (butlast xs) = xs ! (length xs - 2)"
proof (cases xs rule: rev_cases)
  case Nil
  assume "2 \<le> length xs"
  with Nil show ?thesis by simp
next
  case (snoc ys y)
  assume "2 \<le> length xs"
  with snoc have "ys \<noteq> []" by auto
  then have "last ys = ys ! (length ys - 1)" by (rule last_conv_nth)
  moreover have "length ys - 1 < length ys" using \<open>ys \<noteq> []\<close> by simp
  ultimately show ?thesis using snoc by (simp add: nth_append)
qed

text \<open>
  C7 (amended). \<open>__imatmul__\<close> raises \<open>ValueError\<close> when either operand is
  zero-dimensional, when the right operand has one dimension, and when the last two
  axes of the right operand differ. Otherwise it is the engine's product assigned into
  the buffer of the receiver: what it returns is the receiver, with its shape and dtype
  and the new buffer. Shapes \<open>(2,3)\<close> and \<open>(3,4)\<close> raise \<open>ValueError\<close>; shapes \<open>(3,3)\<close> and
  \<open>(3,3)\<close>, and also \<open>(3,)\<close> and \<open>(3,3)\<close>, pass the tests and reach the engine.
\<close>

theorem imatmul_shape_tests:
  "(shape self = [] \<or> shape other = [] \<longrightarrow>
      array_imatmul eng self (Arr other) = Inl ValueError)
   \<and> (length (shape other) = 1 \<longrightarrow> array_imatmul eng self (Arr other) = Inl ValueError)
   \<and> (2 \<le> length (shape other)
        \<and> last (shape other) \<noteq> shape other ! (length (shape other) - 2) \<longrightarrow>
      array_imatmul eng self (Arr other) = Inl ValueError)
   \<and> (shape self \<noteq> [] \<and> 2 \<le> length (shape other)
        \<and> last (shape other) = shape other ! (length (shape other) - 2) \<longrightarrow>
      array_imatmul eng self (Arr other) =
        (case nd_method eng ''__matmul__'' (array_of self) (array_of other) of
           Inl e \<Rightarrow> Inl e
         | Inr res \<Rightarrow>
             (case nd_assign eng (array_of self) res of
                Inl e \<Rightarrow> Inl e
              | Inr buf \<Rightarrow> Inr (Array ((array_of self)\<lparr>nd_data := buf\<rparr>)))))
   \<and> (array_imatmul eng self operand = Inr r \<longrightarrow>
        shape r = shape self \<and> dtype r = dtype self)
   \<and> (shape self = [2, 3] \<and> shape other = [3, 4] \<longrightarrow>
        array_imatmul eng self (Arr other) = Inl ValueError)
   \<and> ((shape self = [3, 3] \<or> shape self = [3]) \<and> shape other = [3, 3] \<longrightarrow>
        array_imatmul eng self (Arr other) =
        (case nd_method eng ''__matmul__'' (array_of self) (array_of other) of
           Inl e \<Rightarrow> Inl e
         | Inr res \<Rightarrow>
             (case nd_assign eng (array_of self) res of
                Inl e \<Rightarrow> Inl e
              | Inr buf \<Rightarrow> Inr (Array ((array_of self)\<lparr>nd_data := buf\<rparr>)))))"
proof -
  have 1: "array_imatmul eng self (Arr other) = Inl ValueError"
    if "shape self = [] \<or> shape other = []"
    using that by (auto simp: array_imatmul_def promote_other_def Let_def)
  have 2: "array_imatmul eng self (Arr other) = Inl ValueError"
    if "length (shape other) = 1"
    using that by (auto simp: array_imatmul_def promote_other_def Let_def)
  have 3: "array_imatmul eng self (Arr other) = Inl ValueError"
    if "2 \<le> length (shape other)"
      "last (shape other) \<noteq> shape other ! (length (shape other) - 2)"
    using that last_butlast_nth [of "shape other"]
    by (auto simp: array_imatmul_def promote_other_def Let_def)
  have 4: "array_imatmul eng self (Arr other) =
        (case nd_method eng ''__matmul__'' (array_of self) (array_of other) of
           Inl e \<Rightarrow> Inl e
         | Inr res \<Rightarrow>
             (case nd_assign eng (array_of self) res of
                Inl e \<Rightarrow> Inl e
              | Inr buf \<Rightarrow> Inr (Array ((array_of self)\<lparr>nd_data := buf\<rparr>))))"
    if "shape self \<noteq> []" "2 \<le> length (shape other)"
      "last (shape other) = shape other ! (length (shape other) - 2)"
    using that last_butlast_nth [of "shape other"]
    by (auto simp: array_imatmul_def promote_other_def Let_def)
  have 5: "shape r = shape self \<and> dtype r = dtype self"
    if "array_imatmul eng self operand = Inr r"
    using that
    by (auto simp: array_imatmul_def Let_def shape_def dtype_def
          split: sum.splits operand.splits if_splits)
  have 6: "array_imatmul eng self (Arr other) = Inl ValueError"
    if "shape self = [2, 3]" "shape other = [3, 4]"
    using 3 that by simp
  have 7: "array_imatmul eng self (Arr other) =
        (case nd_method eng ''__matmul__'' (array_of self) (array_of other) of
           Inl e \<Rightarrow> Inl e
         | Inr res \<Rightarrow>
             (case nd_assign eng (array_of self) res of
                Inl e \<Rightarrow> Inl e
              | Inr buf \<Rightarrow> Inr (Array ((array_of self)\<lparr>nd_data := buf\<rparr>))))"
    if "shape self = [3, 3] \<or> shape self = [3]" "shape other = [3, 3]"
    using 4 that by auto
  show ?thesis using 1 2 3 4 5 6 7 by blast
qed

text \<open>
  On the example engine: a \<open>(3,3)\<close> receiver times a \<open>(3,3)\<close> matrix is written into the
  receiver, and a \<open>(2,3)\<close> receiver times a \<open>(3,4)\<close> matrix raises.
\<close>

theorem imatmul_shape_tests_witness:
  "array_imatmul example_engine
      (Array \<lparr>nd_dtype = Int64, nd_shape = [3, 3], nd_data = [1, 2, 3, 4, 5, 6, 7, 8, 9]\<rparr>)
      (Arr (Array \<lparr>nd_dtype = Int64, nd_shape = [3, 3], nd_data = [0, 1, 0, 1, 0, 0, 0, 0, 2]\<rparr>))
    = Inr (Array \<lparr>nd_dtype = Int64, nd_shape = [3, 3], nd_data = [2, 1, 6, 5, 4, 12, 8, 7, 18]\<rparr>)
   \<and> array_imatmul example_engine
      (Array \<lparr>nd_dtype = Int64, nd_shape = [2, 3], nd_data = [1, 2, 3, 4, 5, 6]\<rparr>)
      (Arr (Array \<lparr>nd_dtype = Int64, nd_shape = [3, 4],
                   nd_data = [1, 0, 0, 0, 0, 1, 0, 0, 0, 0, 1, 0]\<rparr>))
    = Inl ValueError"
proof -
  let ?a = "Array \<lparr>nd_dtype = Int64, nd_shape = [3, 3],
                   nd_data = [1, 2, 3, 4, 5, 6, 7, 8, 9::int]\<rparr>"
  let ?b = "Array \<lparr>nd_dtype = Int64, nd_shape = [3, 3],
                   nd_data = [0, 1, 0, 1, 0, 0, 0, 0, 2::int]\<rparr>"
  let ?c = "Array \<lparr>nd_dtype = Int64, nd_shape = [2, 3], nd_data = [1, 2, 3, 4, 5, 6::int]\<rparr>"
  let ?d = "Array \<lparr>nd_dtype = Int64, nd_shape = [3, 4],
                   nd_data = [1, 0, 0, 0, 0, 1, 0, 0, 0, 0, 1, 0::int]\<rparr>"
  have s: "(shape ?a = [3, 3] \<or> shape ?a = [3]) \<and> shape ?b = [3, 3]"
    "shape ?c = [2, 3] \<and> shape ?d = [3, 4]"
    by (simp_all add: shape_def)
  have e: "(case nd_method example_engine ''__matmul__'' (array_of ?a) (array_of ?b) of
           Inl e \<Rightarrow> Inl e
         | Inr res \<Rightarrow>
             (case nd_assign example_engine (array_of ?a) res of
                Inl e \<Rightarrow> Inl e
              | Inr buf \<Rightarrow> Inr (Array ((array_of ?a)\<lparr>nd_data := buf\<rparr>))))
      = Inr (Array \<lparr>nd_dtype = Int64, nd_shape = [3, 3],
                    nd_data = [2, 1, 6, 5, 4, 12, 8, 7, 18]\<rparr>)"
    by code_simp
  from imatmul_shape_tests [of ?a ?b example_engine] s(1) e
  have 1: "array_imatmul example_engine ?a (Arr ?b)
      = Inr (Array \<lparr>nd_dtype = Int64, nd_shape = [3, 3],
                    nd_data = [2, 1, 6, 5, 4, 12, 8, 7, 18]\<rparr>)"
    by presburger
  from imatmul_shape_tests [of ?c ?d example_engine] s(2)
  have 2: "array_imatmul example_engine ?c (Arr ?d) = Inl ValueError"
    by blast
  show ?thesis using 1 2 by blast
qed

text \<open>
  The claim as stated fails on shapes \<open>(3,)\<close> and \<open>(3,3)\<close>: a vector times a square matrix
  keeps the shape of the receiver, no test rejects it, and the product is written into
  the receiver.
\<close>

theorem imatmul_vector_counterexample:
  "array_imatmul example_engine
      (Array \<lparr>nd_dtype = Int64, nd_shape = [3], nd_data = [1, 2, 3]\<rparr>)
      (Arr (Array \<lparr>nd_dtype = Int64, nd_shape = [3, 3], nd_data = [0, 1, 0, 1, 0, 0, 0, 0, 2]\<rparr>))
    = Inr (Array \<lparr>nd_dtype = Int64, nd_shape = [3], nd_data = [2, 1, 6]\<rparr>)"
  by code_simp

subsection \<open>Device\<close>

text \<open>
  C9 (amended). The property \<open>device\<close> raises \<open>NotImplementedError\<close>. \<open>__dlpack_device__\<close>
  passes the request to the engine: it raises exactly what the engine raises, so
  \<open>NotImplementedError\<close> only when the engine does, and returns when the engine answers.
\<close>

theorem device_not_implemented:
  "device a = Inl NotImplementedError
   \<and> (array_dlpack_device eng a = Inl e \<longleftrightarrow> nd_dlpack_device eng (array_of a) = Inl e)
   \<and> ((\<exists>w. array_dlpack_device eng a = Inr w)
        \<longleftrightarrow> (\<exists>t. nd_dlpack_device eng (array_of a) = Inr t))"
  by (auto simp: device_def array_dlpack_device_def split: sum.splits)

theorem device_not_implemented_witness:
  "device (Array \<lparr>nd_dtype = Int64, nd_shape = [2], nd_data = [1, 2::int]\<rparr>)
    = Inl NotImplementedError
   \<and> array_dlpack_device example_engine
        (Array \<lparr>nd_dtype = Int64, nd_shape = [2], nd_data = [1, 2]\<rparr>)
      \<noteq> Inl NotImplementedError"
proof -
  let ?a = "Array \<lparr>nd_dtype = Int64, nd_shape = [2], nd_data = [1, 2::int]\<rparr>"
  have "nd_dlpack_device example_engine (array_of ?a) \<noteq> Inl NotImplementedError"
    by (simp add: example_engine_def)
  then show ?thesis
    using device_not_implemented [of ?a example_engine NotImplementedError] by simp
qed

text \<open>
  The claim as stated fails on \<open>__dlpack_device__\<close>: on an engine that answers \<open>(1, 0)\<close> the
  method returns and raises nothing.
\<close>

theorem dlpack_device_counterexample:
  "array_dlpack_device example_engine
      (Array \<lparr>nd_dtype = Int64, nd_shape = [2], nd_data = [1, 2]\<rparr>)
    = Inr (WrappedDevice (1, 0))"
  by (simp add: array_dlpack_device_def example_engine_def)

subsection \<open>Round trip of a scalar\<close>

lemma array_int_scalar:
  "nd_scalar eng = numpy_scalar \<Longrightarrow>
   array_int eng (Array \<lparr>nd_dtype = d, nd_shape = [], nd_data = [x]\<rparr>) =
     numpy_scalar ''__int__'' \<lparr>nd_dtype = d, nd_shape = [], nd_data = [x]\<rparr>"
  by (simp add: array_int_def scalar_method_def)

lemma array_float_scalar:
  "nd_scalar eng = numpy_scalar \<Longrightarrow>
   array_float eng (Array \<lparr>nd_dtype = d, nd_shape = [], nd_data = [x]\<rparr>) =
     numpy_scalar ''__float__'' \<lparr>nd_dtype = d, nd_shape = [], nd_data = [x]\<rparr>"
  by (simp add: array_float_def scalar_method_def)

text \<open>
  C8 (amended). With the engine's conversions \<open>numpy_item\<close> and \<open>numpy_scalar\<close>: an integer
  in the range of an integer dtype, promoted and read back with \<open>__int__\<close>, is returned
  exactly, and so is an integer that a floating-point dtype represents; a float
  promoted to a floating-point dtype and read back with \<open>__float__\<close> is returned exactly
  if and only if the format of the dtype represents it, which \<open>float64\<close> does for every
  finite Python float.
\<close>

theorem scalar_round_trip:
  assumes "np_item eng = numpy_item" and "nd_scalar eng = numpy_scalar"
  shows
  "(dtype self \<in> integer_dtypes
      \<and> fst (int_bounds (dtype self)) \<le> i \<and> i \<le> snd (int_bounds (dtype self)) \<longrightarrow>
      (\<exists>r. promote_scalar eng self (Scalar (PInt i)) = Inr r
           \<and> array_int eng r = Inr (PInt i)))
   \<and> (dtype self \<in> floating_dtypes \<and> representable (format_of (dtype self)) (of_int i) \<longrightarrow>
      (\<exists>r. promote_scalar eng self (Scalar (PInt i)) = Inr r
           \<and> array_int eng r = Inr (PInt i)))
   \<and> (dtype self \<in> floating_dtypes \<and> representable (format_of (dtype self)) q \<longrightarrow>
      (\<exists>r. promote_scalar eng self (Scalar (PFloat (Fin q))) = Inr r
           \<and> array_float eng r = Inr (PFloat (Fin q))))
   \<and> (dtype self = Float64 \<and> representable binary64 q \<longrightarrow>
      (\<exists>r. promote_scalar eng self (Scalar (PFloat (Fin q))) = Inr r
           \<and> array_float eng r = Inr (PFloat (Fin q))))
   \<and> (dtype self \<in> floating_dtypes
        \<and> promote_scalar eng self (Scalar (PFloat (Fin q))) = Inr r
        \<and> array_float eng r = Inr (PFloat (Fin q)) \<longrightarrow>
      representable (format_of (dtype self)) q)"
proof -
  have 1: "\<exists>r. promote_scalar eng self (Scalar (PInt i)) = Inr r
           \<and> array_int eng r = Inr (PInt i)"
    if "dtype self \<in> integer_dtypes" "fst (int_bounds (dtype self)) \<le> i"
      "i \<le> snd (int_bounds (dtype self))"
    using that assms numpy_item_int [of "dtype self" i] dtype_classes(2) [of "dtype self"]
    by (simp add: np_array_def array_new_def array_int_scalar numpy_scalar_def)
  have 2: "\<exists>r. promote_scalar eng self (Scalar (PInt i)) = Inr r
           \<and> array_int eng r = Inr (PInt i)"
    if "dtype self \<in> floating_dtypes" "representable (format_of (dtype self)) (of_int i)"
    using that assms numpy_item_int_float_exact [of "dtype self" i]
      dtype_classes(1) [of "dtype self"]
    by (simp add: np_array_def array_new_def array_int_scalar numpy_scalar_def truncate_int)
  have 3: "\<exists>r. promote_scalar eng self (Scalar (PFloat (Fin q))) = Inr r
           \<and> array_float eng r = Inr (PFloat (Fin q))"
    if "dtype self \<in> floating_dtypes" "representable (format_of (dtype self)) q"
    using that assms numpy_item_float_exact [of "dtype self" q]
    by (simp add: np_array_def array_new_def array_float_scalar numpy_scalar_def)
  have 4: "\<exists>r. promote_scalar eng self (Scalar (PFloat (Fin q))) = Inr r
           \<and> array_float eng r = Inr (PFloat (Fin q))"
    if "dtype self = Float64" "representable binary64 q"
    using 3 that by (simp add: floating_dtypes_def format_of_def)
  have 5: "representable (format_of (dtype self)) q"
    if d: "dtype self \<in> floating_dtypes"
      and p: "promote_scalar eng self (Scalar (PFloat (Fin q))) = Inr r"
      and f: "array_float eng r = Inr (PFloat (Fin q))"
  proof -
    from p d assms(1) have
      r: "r = Array \<lparr>nd_dtype = dtype self, nd_shape = [],
                      nd_data = [EFloat (round_to (format_of (dtype self)) q)]\<rparr>"
      using numpy_item_float [of "dtype self" "Fin q"]
      by (auto simp: np_array_def array_new_def float_item_def)
    from f have "round_to (format_of (dtype self)) q = Fin q"
      unfolding r using assms(2) by (simp add: array_float_scalar numpy_scalar_def)
    then show ?thesis using round_to_exact by blast
  qed
  show ?thesis using 1 2 3 4 5 by blast
qed

text \<open>
  \<open>-128\<close> through \<open>int8\<close> and \<open>0.375\<close> through \<open>float32\<close> come back.
\<close>

theorem scalar_round_trip_witness:
  "promote_scalar scalar_engine
      (Array \<lparr>nd_dtype = Int8, nd_shape = [2], nd_data = [EInt 0, EInt 1]\<rparr>) (Scalar (PInt (- 128)))
    = Inr (Array \<lparr>nd_dtype = Int8, nd_shape = [], nd_data = [EInt (- 128)]\<rparr>)
   \<and> array_int scalar_engine (Array \<lparr>nd_dtype = Int8, nd_shape = [], nd_data = [EInt (- 128)]\<rparr>)
    = Inr (PInt (- 128))
   \<and> promote_scalar scalar_engine
      (Array \<lparr>nd_dtype = Float32, nd_shape = [2], nd_data = [EFloat (Fin 0), EFloat (Fin 1)]\<rparr>)
      (Scalar (PFloat (Fin (3 / 8))))
    = Inr (Array \<lparr>nd_dtype = Float32, nd_shape = [], nd_data = [EFloat (Fin (3 / 8))]\<rparr>)
   \<and> array_float scalar_engine
      (Array \<lparr>nd_dtype = Float32, nd_shape = [], nd_data = [EFloat (Fin (3 / 8))]\<rparr>)
    = Inr (PFloat (Fin (3 / 8)))"
proof -
  let ?a = "Array \<lparr>nd_dtype = Int8, nd_shape = [2], nd_data = [EInt 0, EInt 1]\<rparr>"
  let ?f = "Array \<lparr>nd_dtype = Float32, nd_shape = [2],
                   nd_data = [EFloat (Fin 0), EFloat (Fin 1)]\<rparr>"
  have e: "np_item scalar_engine = numpy_item" "nd_scalar scalar_engine = numpy_scalar"
    by (simp_all add: scalar_engine_def)
  have ha: "dtype ?a \<in> integer_dtypes
      \<and> fst (int_bounds (dtype ?a)) \<le> - 128 \<and> - 128 \<le> snd (int_bounds (dtype ?a))"
    by (simp add: dtype_def integer_dtypes_def int_bounds_def)
  have hf: "dtype ?f \<in> floating_dtypes \<and> representable (format_of (dtype ?f)) (3 / 8)"
    by code_simp
  have pa: "promote_scalar scalar_engine ?a (Scalar (PInt (- 128)))
      = Inr (Array \<lparr>nd_dtype = Int8, nd_shape = [], nd_data = [EInt (- 128)]\<rparr>)"
    by code_simp
  have pf: "promote_scalar scalar_engine ?f (Scalar (PFloat (Fin (3 / 8))))
      = Inr (Array \<lparr>nd_dtype = Float32, nd_shape = [], nd_data = [EFloat (Fin (3 / 8))]\<rparr>)"
    by code_simp
  from scalar_round_trip [OF e, of ?a "- 128" "3 / 8"] ha pa
  have 1: "array_int scalar_engine
      (Array \<lparr>nd_dtype = Int8, nd_shape = [], nd_data = [EInt (- 128)]\<rparr>) = Inr (PInt (- 128))"
    by auto
  from scalar_round_trip [OF e, of ?f 0 "3 / 8"] hf pf
  have 2: "array_float scalar_engine
      (Array \<lparr>nd_dtype = Float32, nd_shape = [], nd_data = [EFloat (Fin (3 / 8))]\<rparr>)
      = Inr (PFloat (Fin (3 / 8)))"
    by auto
  show ?thesis using pa pf 1 2 by blast
qed

text \<open>
  The claim as stated fails on the finite float 16777217.0 through \<open>float32\<close>, which
  comes back as 16777216.0, and on the integer \<open>2 ** 53 + 1\<close> through \<open>float64\<close>, which
  comes back as \<open>2 ** 53\<close>.
\<close>

theorem scalar_round_trip_counterexample:
  "representable binary64 16777217
   \<and> promote_scalar scalar_engine
      (Array \<lparr>nd_dtype = Float32, nd_shape = [2], nd_data = [EFloat (Fin 0), EFloat (Fin 1)]\<rparr>)
      (Scalar (PFloat (Fin 16777217)))
    = Inr (Array \<lparr>nd_dtype = Float32, nd_shape = [], nd_data = [EFloat (Fin 16777216)]\<rparr>)
   \<and> array_float scalar_engine
      (Array \<lparr>nd_dtype = Float32, nd_shape = [], nd_data = [EFloat (Fin 16777216)]\<rparr>)
    = Inr (PFloat (Fin 16777216))
   \<and> promote_scalar scalar_engine
      (Array \<lparr>nd_dtype = Float64, nd_shape = [2], nd_data = [EFloat (Fin 0), EFloat (Fin 1)]\<rparr>)
      (Scalar (PInt (2 ^ 53 + 1)))
    = Inr (Array \<lparr>nd_dtype = Float64, nd_shape = [], nd_data = [EFloat (Fin (2 ^ 53))]\<rparr>)
   \<and> array_int scalar_engine
      (Array \<lparr>nd_dtype = Float64, nd_shape = [], nd_data = [EFloat (Fin (2 ^ 53))]\<rparr>)
    = Inr (PInt (2 ^ 53))"
  by code_simp

subsection \<open>Scalar extraction\<close>

text \<open>
  X1. \<open>__bool__\<close>, \<open>__int__\<close> and \<open>__float__\<close> raise \<open>TypeError\<close> on an array that is not
  zero-dimensional and are the engine's conversion otherwise; on the result of a scalar
  promotion they always reach the engine.
\<close>

theorem scalar_extraction_zero_dim:
  "array_bool eng a =
     (if shape a = [] then nd_scalar eng ''__bool__'' (array_of a) else Inl TypeError)
   \<and> array_int eng a =
     (if shape a = [] then nd_scalar eng ''__int__'' (array_of a) else Inl TypeError)
   \<and> array_float eng a =
     (if shape a = [] then nd_scalar eng ''__float__'' (array_of a) else Inl TypeError)
   \<and> (promote_scalar eng self v = Inr r \<longrightarrow>
        array_bool eng r = nd_scalar eng ''__bool__'' (array_of r)
        \<and> array_int eng r = nd_scalar eng ''__int__'' (array_of r)
        \<and> array_float eng r = nd_scalar eng ''__float__'' (array_of r))"
proof -
  have "nd_shape (array_of r) = []" if "promote_scalar eng self v = Inr r"
    using that
    by (cases "(eng, self, v)" rule: promote_scalar.cases)
       (auto simp: np_array_def array_new_def split: if_splits sum.splits)
  then show ?thesis
    by (simp add: array_bool_def array_int_def array_float_def scalar_method_def shape_def)
qed

text \<open>
  On the example engine the integer 127 promoted to \<open>int8\<close> comes back from \<open>__int__\<close>, and
  \<open>__int__\<close> of a one-dimensional array raises.
\<close>

theorem scalar_extraction_zero_dim_witness:
  "promote_scalar example_engine
      (Array \<lparr>nd_dtype = Int8, nd_shape = [2], nd_data = [0, 1]\<rparr>) (Scalar (PInt 127))
    = Inr (Array \<lparr>nd_dtype = Int8, nd_shape = [], nd_data = [127]\<rparr>)
   \<and> array_int example_engine (Array \<lparr>nd_dtype = Int8, nd_shape = [], nd_data = [127]\<rparr>)
    = Inr (PInt 127)
   \<and> array_int example_engine (Array \<lparr>nd_dtype = Int8, nd_shape = [2], nd_data = [0, 1]\<rparr>)
    = Inl TypeError"
proof -
  let ?a = "Array \<lparr>nd_dtype = Int8, nd_shape = [2], nd_data = [0, 1::int]\<rparr>"
  let ?r = "Array \<lparr>nd_dtype = Int8, nd_shape = [], nd_data = [127::int]\<rparr>"
  have p: "promote_scalar example_engine ?a (Scalar (PInt 127)) = Inr ?r"
    by code_simp
  have e: "nd_scalar example_engine ''__int__'' (array_of ?r) = Inr (PInt 127)"
    by code_simp
  from scalar_extraction_zero_dim [of example_engine ?r ?a "Scalar (PInt 127)" ?r]
    e
  have 1: "array_int example_engine ?r = Inr (PInt 127)" by (simp add: shape_def)
  from scalar_extraction_zero_dim [of example_engine ?a ?a "Scalar (PInt 127)" ?r]
  have 2: "array_int example_engine ?a = Inl TypeError" by (simp add: shape_def)
  show ?thesis using p 1 2 by blast
qed

end
